theory Spec2Isabelle
  imports Complex_Main
begin

section \<open>Python strings\<close>

text \<open>
  A Python \<open>str\<close> is modelled as a \<open>string\<close>. The functions below are the methods of
  \<open>str\<close> that the analysed modules call, written after the behaviour of CPython.
\<close>

definition startswith :: "string \<Rightarrow> string \<Rightarrow> bool" where
  "startswith s p = (take (length p) s = p)"

definition endswith :: "string \<Rightarrow> string \<Rightarrow> bool" where
  "endswith s p = (length p \<le> length s \<and> drop (length s - length p) s = p)"

text \<open>\<open>s.count(sub)\<close>: the number of non-overlapping occurrences, scanning from the left.\<close>

function count_str :: "string \<Rightarrow> string \<Rightarrow> nat" where
  "count_str [] sub = (if sub = [] then 1 else 0)"
| "count_str (c # cs) sub =
     (if sub = [] then Suc (count_str cs sub)
      else if startswith (c # cs) sub then Suc (count_str (drop (length sub) (c # cs)) sub)
      else count_str cs sub)"
  by pat_completeness auto
termination
  by (relation "measure (\<lambda>(s, sub). length s)") auto

text \<open>\<open>sub in s\<close>.\<close>

fun contains :: "string \<Rightarrow> string \<Rightarrow> bool" where
  "contains [] sub = (sub = [])"
| "contains (c # cs) sub = (startswith (c # cs) sub \<or> contains cs sub)"

text \<open>\<open>s.find(sub, start)\<close>: the lowest index at or after \<open>start\<close>, or \<open>-1\<close>.\<close>

fun find_aux :: "string \<Rightarrow> string \<Rightarrow> nat \<Rightarrow> nat option" where
  "find_aux [] sub i = (if sub = [] then Some i else None)"
| "find_aux (c # cs) sub i =
     (if startswith (c # cs) sub then Some i else find_aux cs sub (Suc i))"

definition find :: "string \<Rightarrow> string \<Rightarrow> nat \<Rightarrow> int" where
  "find s sub start =
     (if length s < start then - 1
      else case find_aux (drop start s) sub start of None \<Rightarrow> - 1 | Some i \<Rightarrow> int i)"

text \<open>\<open>s[i:j]\<close>, with Python's treatment of negative and out-of-range bounds.\<close>

definition slice_index :: "nat \<Rightarrow> int \<Rightarrow> nat" where
  "slice_index n i = (if i < 0 then nat (max 0 (int n + i)) else min n (nat i))"

definition slice :: "string \<Rightarrow> int \<Rightarrow> int \<Rightarrow> string" where
  "slice s i j =
     (let a = slice_index (length s) i; b = slice_index (length s) j
      in take (b - a) (drop a s))"

text \<open>
  The characters that \<open>str.splitlines\<close> treats as line boundaries and that \<open>str.strip\<close>
  removes, among the code points below 256. \<open>U+2028\<close> and \<open>U+2029\<close> lie outside \<open>char\<close>.
\<close>

definition is_linebreak :: "char \<Rightarrow> bool" where
  "is_linebreak c = (c \<in> {CHR 0x0A, CHR 0x0B, CHR 0x0C, CHR 0x0D, CHR 0x1C, CHR 0x1D, CHR 0x1E, CHR 0x85})"

definition is_space :: "char \<Rightarrow> bool" where
  "is_space c = (c \<in> {CHR 0x09, CHR 0x0A, CHR 0x0B, CHR 0x0C, CHR 0x0D, CHR 0x1C, CHR 0x1D,
     CHR 0x1E, CHR 0x1F, CHR 0x20, CHR 0x85, CHR 0xA0})"

definition strip :: "string \<Rightarrow> string" where
  "strip s = rev (dropWhile is_space (rev (dropWhile is_space s)))"

text \<open>
  \<open>s.splitlines()\<close>: the first argument is the current line, reversed. A carriage
  return followed by a line feed is one boundary; no empty last line is produced.
\<close>

fun splitlines_aux :: "string \<Rightarrow> string \<Rightarrow> string list" where
  "splitlines_aux cur [] = (if cur = [] then [] else [rev cur])"
| "splitlines_aux cur [c] = (if is_linebreak c then [rev cur] else [rev (c # cur)])"
| "splitlines_aux cur (c # d # cs) =
     (if c = CHR 0x0D \<and> d = CHR 0x0A then rev cur # splitlines_aux [] cs
      else if is_linebreak c then rev cur # splitlines_aux [] (d # cs)
      else splitlines_aux (c # cur) (d # cs))"

definition splitlines :: "string \<Rightarrow> string list" where
  "splitlines s = splitlines_aux [] s"

text \<open>\<open>sep.join(xs)\<close>.\<close>

fun join :: "string \<Rightarrow> string list \<Rightarrow> string" where
  "join sep [] = []"
| "join sep [x] = x"
| "join sep (x # y # ys) = x @ sep @ join sep (y # ys)"

text \<open>\<open>str(x)\<close> for an optional string: \<open>None\<close> prints as its name.\<close>

definition str_opt :: "string option \<Rightarrow> string" where
  "str_opt x = (case x of None \<Rightarrow> ''None'' | Some s \<Rightarrow> s)"

text \<open>The truth value of an optional string: \<open>None\<close> and the empty string are false.\<close>

definition truthy_opt :: "string option \<Rightarrow> bool" where
  "truthy_opt x = (case x of None \<Rightarrow> False | Some s \<Rightarrow> s \<noteq> [])"

section \<open>The diff reader (\<open>git_analyzer.py\<close>)\<close>

record diff_info =
  file_path :: string
  change_type :: string
  additions :: int
  deletions :: int
  diff_content :: string
  old_path :: "string option"

definition is_python_file :: "diff_info \<Rightarrow> bool" where
  "is_python_file d = endswith (file_path d) ''.py''"

text \<open>
  The patch blob of a diff item, by what \<open>diff_item.diff.decode("utf-8")\<close> makes of it:
  the attribute is \<open>None\<close> or empty, the bytes are not valid UTF-8, or they decode to a
  text.
\<close>

datatype blob = No_blob | Undecodable | Utf8 string

record diff_item =
  new_file :: bool
  deleted_file :: bool
  renamed :: bool
  b_path :: "string option"
  a_path :: "string option"
  diff :: blob

definition decode_diff :: "blob \<Rightarrow> string" where
  "decode_diff b = (case b of Utf8 s \<Rightarrow> s | _ \<Rightarrow> [])"

text \<open>The body of the loop of \<open>_parse_diff_index\<close>.\<close>

definition parse_diff_item :: "diff_item \<Rightarrow> diff_info" where
  "parse_diff_item d =
     (let change_type =
            (if new_file d then ''A''
             else if deleted_file d then ''D''
             else if renamed d then ''R''
             else ''M'');
          file_path = str_opt (if truthy_opt (b_path d) then b_path d else a_path d);
          old_path = (if renamed d then Some (str_opt (a_path d)) else None);
          diff_content = decode_diff (diff d);
          additions = int (count_str diff_content ''\<newline>+'')
                        - int (count_str diff_content ''\<newline>+++'');
          deletions = int (count_str diff_content ''\<newline>-'')
                        - int (count_str diff_content ''\<newline>---'')
      in \<lparr>file_path = file_path, change_type = change_type,
          additions = max 0 additions, deletions = max 0 deletions,
          diff_content = diff_content, old_path = old_path\<rparr>)"

definition parse_diff_index :: "diff_item list \<Rightarrow> diff_info list" where
  "parse_diff_index diff_index = map parse_diff_item diff_index"

text \<open>
  The exceptions that leave the analysed functions. \<open>BadName\<close> is the exception of the
  object database that the repository library raises when a revision does not resolve;
  it is not a \<open>GitCommandError\<close>.
\<close>

datatype pyerror = AttributeError | TypeError | ValueError | OverflowError | BadName

text \<open>
  What \<open>index.diff("HEAD")\<close> does: it returns a diff index, it raises \<open>GitCommandError\<close>,
  or it raises another exception. On a repository without a commit \<open>HEAD\<close> does not
  resolve and the library raises \<open>BadName\<close>.
\<close>

datatype head_diff = Head_diff "diff_item list" | GitCommandError | Head_raises pyerror

text \<open>
  The repository as the analyzer sees it: the two index comparisons, the keys of the
  index entries in their order, each a path and a stage, and the working tree, where a
  path that cannot be opened or decoded reads as \<open>None\<close>.
\<close>

record repo =
  index_diff_worktree :: "diff_item list"
  index_diff_head :: head_diff
  index_entries :: "(string \<times> nat) list"
  worktree :: "string \<Rightarrow> string option"

definition initial_commit_item :: "repo \<Rightarrow> string \<Rightarrow> diff_info" where
  "initial_commit_item r path =
     (let diff_content =
            (case worktree r path of
               None \<Rightarrow> []
             | Some content \<Rightarrow> join ''\<newline>'' (map (\<lambda>line. CHR ''+'' # line) (splitlines content)))
      in \<lparr>file_path = path, change_type = ''A'',
          additions = (if diff_content \<noteq> [] then int (count_str diff_content ''\<newline>+'') else 0),
          deletions = 0, diff_content = diff_content, old_path = None\<rparr>)"

definition get_initial_commit_diff :: "repo \<Rightarrow> diff_info list" where
  "get_initial_commit_diff r = map (\<lambda>(path, stage). initial_commit_item r path) (index_entries r)"

definition get_unstaged_diff :: "repo \<Rightarrow> diff_info list" where
  "get_unstaged_diff r = parse_diff_index (index_diff_worktree r)"

text \<open>
  \<open>get_staged_diff\<close>: the handler names \<open>GitCommandError\<close> only, so any other exception of
  the comparison leaves the function.
\<close>

definition get_staged_diff :: "repo \<Rightarrow> pyerror + diff_info list" where
  "get_staged_diff r =
     (case index_diff_head r of
        Head_diff diff_index \<Rightarrow> Inr (parse_diff_index diff_index)
      | GitCommandError \<Rightarrow> Inr (get_initial_commit_diff r)
      | Head_raises e \<Rightarrow> Inl e)"

text \<open>
  The counting rule in the words of the specification: the lines of a patch body are the
  pieces between line feeds; a line counts as added when it begins with the \<open>+\<close> marker
  and is not a \<open>+++\<close> header line, and as removed likewise with \<open>-\<close>.
\<close>

fun patch_lines :: "string \<Rightarrow> string list" where
  "patch_lines [] = [[]]"
| "patch_lines (c # cs) =
     (if c = CHR 0x0A then [] # patch_lines cs
      else (case patch_lines cs of [] \<Rightarrow> [[c]] | l # ls \<Rightarrow> (c # l) # ls))"

definition added_line :: "string \<Rightarrow> bool" where
  "added_line l = (startswith l ''+'' \<and> \<not> startswith l ''+++'')"

definition removed_line :: "string \<Rightarrow> bool" where
  "removed_line l = (startswith l ''-'' \<and> \<not> startswith l ''---'')"

section \<open>Python values\<close>

text \<open>
  The values that \<open>json.loads\<close> produces and that the fields of the dynamically typed
  result records can hold. A float is its exact value, or an infinity, or not a number.
  A \<open>dict\<close> with string keys is an association list; lookup takes the first entry of a key.
\<close>

datatype pyfloat = Finite real | Infinity | NaN

datatype pyval =
    PNone
  | PBool bool
  | PInt int
  | PFloat pyfloat
  | PStr string
  | PList "pyval list"
  | PDict "(string \<times> pyval) list"

text \<open>The truth value of a Python value, as \<open>if x:\<close> takes it.\<close>

fun truthy :: "pyval \<Rightarrow> bool" where
  "truthy PNone = False"
| "truthy (PBool b) = b"
| "truthy (PInt n) = (n \<noteq> 0)"
| "truthy (PFloat f) = (f \<noteq> Finite 0)"
| "truthy (PStr s) = (s \<noteq> [])"
| "truthy (PList xs) = (xs \<noteq> [])"
| "truthy (PDict kvs) = (kvs \<noteq> [])"

definition dict_get :: "(string \<times> pyval) list \<Rightarrow> string \<Rightarrow> pyval \<Rightarrow> pyval" where
  "dict_get kvs k dflt = (case map_of kvs k of None \<Rightarrow> dflt | Some v \<Rightarrow> v)"

text \<open>\<open>x.get(k, dflt)\<close>: only a \<open>dict\<close> has the method.\<close>

definition py_get :: "pyval \<Rightarrow> string \<Rightarrow> pyval \<Rightarrow> pyerror + pyval" where
  "py_get x k dflt = (case x of PDict kvs \<Rightarrow> Inr (dict_get kvs k dflt) | _ \<Rightarrow> Inl AttributeError)"

text \<open>\<open>for item in x\<close>: a list gives its items, a dict its keys, a string its characters.\<close>

definition py_iter :: "pyval \<Rightarrow> pyerror + pyval list" where
  "py_iter x =
     (case x of
        PList xs \<Rightarrow> Inr xs
      | PDict kvs \<Rightarrow> Inr (map (\<lambda>kv. PStr (fst kv)) kvs)
      | PStr s \<Rightarrow> Inr (map (\<lambda>c. PStr [c]) s)
      | _ \<Rightarrow> Inl TypeError)"

text \<open>
  The content blocks of a reply: a text block, a tool-use block with its name and input,
  or a block of another type. The input of a tool-use block is a \<open>dict\<close>, a string, or
  something else.
\<close>

datatype raw_input = Input_dict "(string \<times> pyval) list" | Input_str string | Input_other

datatype block = TextBlock string | ToolUseBlock string raw_input | OtherBlock

text \<open>
  What is taken as given from the Python runtime and the client library: \<open>json.loads\<close>
  (\<open>None\<close> when it raises \<open>JSONDecodeError\<close>), \<open>int\<close> on a string (\<open>None\<close> when it
  raises \<open>ValueError\<close>), \<open>str\<close> on a value that is not a string, and \<open>str\<close> on a content
  block.
\<close>

record python =
  json_loads :: "string \<Rightarrow> pyval option"
  int_of_str :: "string \<Rightarrow> int option"
  str_of_val :: "pyval \<Rightarrow> string"
  str_of_block :: "block \<Rightarrow> string"

text \<open>
  A runtime for the examples below: its decoder knows the texts of the table and rejects
  every other text. The examples call neither \<open>int\<close> on a string nor \<open>str\<close> on anything
  but a string.
\<close>

definition python_with :: "(string \<times> pyval) list \<Rightarrow> python" where
  "python_with table =
     \<lparr>json_loads = map_of table, int_of_str = (\<lambda>s. None), str_of_val = (\<lambda>v. []),
      str_of_block = (\<lambda>b. [])\<rparr>"

text \<open>\<open>int(x)\<close>: a float is truncated towards zero.\<close>

definition py_int :: "python \<Rightarrow> pyval \<Rightarrow> pyerror + int" where
  "py_int rt x =
     (case x of
        PInt n \<Rightarrow> Inr n
      | PBool b \<Rightarrow> Inr (if b then 1 else 0)
      | PFloat f \<Rightarrow>
          (case f of
             Finite r \<Rightarrow> Inr (if 0 \<le> r then \<lfloor>r\<rfloor> else \<lceil>r\<rceil>)
           | Infinity \<Rightarrow> Inl OverflowError
           | NaN \<Rightarrow> Inl ValueError)
      | PStr s \<Rightarrow> (case int_of_str rt s of None \<Rightarrow> Inl ValueError | Some n \<Rightarrow> Inr n)
      | _ \<Rightarrow> Inl TypeError)"

definition py_str :: "python \<Rightarrow> pyval \<Rightarrow> string" where
  "py_str rt x = (case x of PStr s \<Rightarrow> s | _ \<Rightarrow> str_of_val rt x)"

text \<open>\<open>str(n)\<close> for an integer.\<close>

fun str_nat :: "nat \<Rightarrow> string" where
  "str_nat n =
     (if n < 10 then [''0123456789'' ! n]
      else str_nat (n div 10) @ [''0123456789'' ! (n mod 10)])"

definition str_int :: "int \<Rightarrow> string" where
  "str_int i = (if i < 0 then CHR ''-'' # str_nat (nat (- i)) else str_nat (nat i))"

section \<open>The reviewer (\<open>code_reviewer.py\<close>)\<close>

text \<open>
  The result records. Python does not check the annotated field types, so a field holds
  whatever value the reply carried.
\<close>

record review_issue =
  severity :: pyval
  issue_file_path :: pyval
  line_number :: pyval
  category :: pyval
  description :: pyval
  suggestion :: pyval
  code_example :: pyval

record review_result =
  overall_score :: pyval
  issues :: "review_issue list"
  summary :: pyval
  recommendations :: pyval
  diff_analyzed :: string

definition critical_issues_count :: "review_result \<Rightarrow> nat" where
  "critical_issues_count r = length (filter (\<lambda>issue. severity issue = PStr ''CRITICAL'') (issues r))"

definition high_issues_count :: "review_result \<Rightarrow> nat" where
  "high_issues_count r = length (filter (\<lambda>issue. severity issue = PStr ''HIGH'') (issues r))"

definition total_issues_count :: "review_result \<Rightarrow> nat" where
  "total_issues_count r = length (issues r)"

text \<open>
  The \<open>ReviewIssue(...)\<close> expression that both tiers evaluate for one item of the issue
  list: the first \<open>issue.get\<close> raises when the item is not a \<open>dict\<close>.
\<close>

definition issue_of :: "pyval \<Rightarrow> pyerror + review_issue" where
  "issue_of issue =
     (case issue of
        PDict kvs \<Rightarrow>
          Inr \<lparr>severity = dict_get kvs ''severity'' (PStr ''MEDIUM''),
               issue_file_path = dict_get kvs ''file_path'' (PStr []),
               line_number = dict_get kvs ''line_number'' PNone,
               category = dict_get kvs ''category'' (PStr ''quality''),
               description = dict_get kvs ''description'' (PStr []),
               suggestion = dict_get kvs ''suggestion'' (PStr []),
               code_example = dict_get kvs ''code_example'' PNone\<rparr>
      | _ \<Rightarrow> Inl AttributeError)"

text \<open>The list comprehension over the items: the first item that raises ends it.\<close>

fun issues_of :: "pyval list \<Rightarrow> pyerror + review_issue list" where
  "issues_of [] = Inr []"
| "issues_of (x # xs) =
     (case issue_of x of
        Inl e \<Rightarrow> Inl e
      | Inr i \<Rightarrow> (case issues_of xs of Inl e \<Rightarrow> Inl e | Inr rest \<Rightarrow> Inr (i # rest)))"

text \<open>
  The text handed to \<open>json.loads\<close> by \<open>_parse_review_response\<close>: the inside of the first
  fence labelled \<open>json\<close>, else of the first fence, else the whole reply. A missing closing
  fence makes \<open>find\<close> return \<open>-1\<close>, and the slice then drops the last character.
\<close>

definition json_text :: "string \<Rightarrow> string" where
  "json_text response_text =
     (if contains response_text ''```json'' then
        (let start = find response_text ''```json'' 0 + 7;
             end = find response_text ''```'' (nat start)
         in strip (slice response_text start end))
      else if contains response_text ''```'' then
        (let start = find response_text ''```'' 0 + 3;
             end = find response_text ''```'' (nat start)
         in strip (slice response_text start end))
      else response_text)"

text \<open>The result of the \<open>except (json.JSONDecodeError, KeyError, ValueError)\<close> branch.\<close>

definition fallback_result :: "string \<Rightarrow> review_result" where
  "fallback_result response_text =
     \<lparr>overall_score = PInt 50, issues = [], summary = PStr (take 500 response_text),
      recommendations = PList [PStr ''Unable to parse structured review. See summary for details.''],
      diff_analyzed = []\<rparr>"

text \<open>
  \<open>_parse_review_response\<close>. The only exception of the handled classes that the body can
  raise is the decoder's; an \<open>AttributeError\<close> or \<open>TypeError\<close> of the mapping is not
  handled and leaves the function.
\<close>

definition parse_review_response :: "python \<Rightarrow> string \<Rightarrow> diff_info list \<Rightarrow> pyerror + review_result" where
  "parse_review_response rt response_text diff_list =
     (case json_loads rt (json_text response_text) of
        None \<Rightarrow> Inr (fallback_result response_text)
      | Some data \<Rightarrow>
          (case py_get data ''issues'' (PList []) of
             Inl e \<Rightarrow> Inl e
           | Inr issues_field \<Rightarrow>
               (case py_iter issues_field of
                  Inl e \<Rightarrow> Inl e
                | Inr items \<Rightarrow>
                    (case issues_of items of
                       Inl e \<Rightarrow> Inl e
                     | Inr issue_list \<Rightarrow>
                         (case data of
                            PDict kvs \<Rightarrow>
                              Inr \<lparr>overall_score = dict_get kvs ''overall_score'' (PInt 50),
                                   issues = issue_list,
                                   summary = dict_get kvs ''summary'' (PStr []),
                                   recommendations = dict_get kvs ''recommendations'' (PList []),
                                   diff_analyzed = []\<rparr>
                          | _ \<Rightarrow> Inl AttributeError)))))"

text \<open>
  \<open>_collect_text_blocks\<close>; when the reply has no text block, the text is \<open>str\<close> of its first
  block.
\<close>

definition collect_text_blocks :: "python \<Rightarrow> block list \<Rightarrow> string" where
  "collect_text_blocks rt content =
     (let texts = concat (map (\<lambda>b. case b of TextBlock t \<Rightarrow> [t] | _ \<Rightarrow> []) content)
      in if texts \<noteq> [] then join ''\<newline>'' texts
         else (case content of [] \<Rightarrow> [] | b # bs \<Rightarrow> str_of_block rt b))"

text \<open>A tool-use block that invokes the review-submission tool.\<close>

definition is_submit_review :: "block \<Rightarrow> bool" where
  "is_submit_review b = (case b of ToolUseBlock name raw_input \<Rightarrow> name = ''submit_review'' | _ \<Rightarrow> False)"

fun extract_review_tool_payload :: "python \<Rightarrow> block list \<Rightarrow> pyval option" where
  "extract_review_tool_payload rt [] = None"
| "extract_review_tool_payload rt (ToolUseBlock name raw_input # content) =
     (if name = ''submit_review'' then
        (case raw_input of
           Input_dict kvs \<Rightarrow> Some (PDict kvs)
         | Input_str s \<Rightarrow> json_loads rt s
         | Input_other \<Rightarrow> extract_review_tool_payload rt content)
      else extract_review_tool_payload rt content)"
| "extract_review_tool_payload rt (b # content) = extract_review_tool_payload rt content"

definition build_review_result :: "python \<Rightarrow> pyval \<Rightarrow> pyerror + review_result" where
  "build_review_result rt payload =
     (case payload of
        PDict kvs \<Rightarrow>
          (let issues_field = dict_get kvs ''issues'' PNone;
               issue_payloads = (case issues_field of PList xs \<Rightarrow> xs | _ \<Rightarrow> [])
           in case issues_of issue_payloads of
                Inl e \<Rightarrow> Inl e
              | Inr issue_list \<Rightarrow>
                  (let recs_field = dict_get kvs ''recommendations'' PNone;
                       recommendations =
                         (case recs_field of
                            PList recs \<Rightarrow> map (\<lambda>rec. PStr (py_str rt rec)) recs
                          | _ \<Rightarrow> [])
                   in case py_int rt (dict_get kvs ''overall_score'' (PInt 50)) of
                        Inl e \<Rightarrow> Inl e
                      | Inr score \<Rightarrow>
                          Inr \<lparr>overall_score = PInt score, issues = issue_list,
                               summary = dict_get kvs ''summary'' (PStr []),
                               recommendations = PList recommendations,
                               diff_analyzed = []\<rparr>))
      | _ \<Rightarrow> Inl AttributeError)"

definition change_summary :: "diff_info \<Rightarrow> string" where
  "change_summary d = ''+'' @ str_int (additions d) @ ''/-'' @ str_int (deletions d)"

definition build_diff_context :: "diff_info list \<Rightarrow> string" where
  "build_diff_context diff_list =
     join ''\<newline>''
       ((''# Code Changes Review\<newline>\<newline>Total files changed: '' @ str_nat (length diff_list) @ ''\<newline>'')
        # concat (map (\<lambda>d.
            [''\<newline>## File: '' @ file_path d,
             ''Change type: '' @ change_type d,
             ''Changes: '' @ change_summary d]
            @ (if truthy_opt (old_path d) then [''Renamed from: '' @ the (old_path d)] else [])
            @ (if diff_content d \<noteq> [] then [''\<newline>```diff\<newline>'' @ diff_content d @ ''\<newline>```''] else []))
          diff_list))"

text \<open>
  The outcome of the one request that \<open>_review_diffs\<close> sends to the reasoning engine: an
  error of the client library, with the texts that the handlers print, or the content
  blocks of the reply.
\<close>

datatype api_error =
    APIConnectionError string
  | RateLimitError
  | APIStatusError string string
  | APIError string

definition error_result :: "string \<Rightarrow> review_result" where
  "error_result text =
     \<lparr>overall_score = PInt 0, issues = [], summary = PStr text, recommendations = PList [],
      diff_analyzed = []\<rparr>"

text \<open>
  \<open>_review_diffs\<close>. The prompt only matters to the engine, whose outcome is an argument
  here. The function returns the result, or the exception that leaves it, together with
  the number of requests sent to the engine.
\<close>

definition review_diffs ::
  "python \<Rightarrow> api_error + block list \<Rightarrow> diff_info list
     \<Rightarrow> (pyerror + review_result) \<times> nat" where
  "review_diffs rt outcome diff_list =
     (let diff_context = build_diff_context diff_list
      in (case outcome of
            Inr content \<Rightarrow>
              (let tool_payload = extract_review_tool_payload rt content
               in case (case tool_payload of
                          Some payload \<Rightarrow>
                            if truthy payload then build_review_result rt payload
                            else parse_review_response rt (collect_text_blocks rt content) diff_list
                        | None \<Rightarrow>
                            parse_review_response rt (collect_text_blocks rt content) diff_list) of
                    Inl e \<Rightarrow> Inl e
                  | Inr result \<Rightarrow> Inr (result\<lparr>diff_analyzed := diff_context\<rparr>))
          | Inl (APIConnectionError cause) \<Rightarrow> Inr (error_result (''Network error: '' @ cause))
          | Inl RateLimitError \<Rightarrow> Inr (error_result ''Rate limit exceeded. Please wait and try again.'')
          | Inl (APIStatusError status_code response) \<Rightarrow>
              Inr (error_result (''API error (status '' @ status_code @ ''): '' @ response))
          | Inl (APIError text) \<Rightarrow> Inr (error_result (''API Error: '' @ text)),
          1))"

definition no_changes_result :: "string \<Rightarrow> review_result" where
  "no_changes_result text =
     \<lparr>overall_score = PInt 100, issues = [], summary = PStr text, recommendations = PList [],
      diff_analyzed = []\<rparr>"

definition review_staged_changes ::
  "python \<Rightarrow> api_error + block list \<Rightarrow> repo
     \<Rightarrow> (pyerror + review_result) \<times> nat" where
  "review_staged_changes rt outcome r =
     (case get_staged_diff r of
        Inl e \<Rightarrow> (Inl e, 0)
      | Inr diff_list \<Rightarrow>
          if diff_list = [] then (Inr (no_changes_result ''No staged changes to review.''), 0)
          else review_diffs rt outcome diff_list)"

definition review_unstaged_changes ::
  "python \<Rightarrow> api_error + block list \<Rightarrow> repo
     \<Rightarrow> (pyerror + review_result) \<times> nat" where
  "review_unstaged_changes rt outcome r =
     (let diff_list = get_unstaged_diff r
      in if diff_list = [] then (Inr (no_changes_result ''No unstaged changes to review.''), 0)
         else review_diffs rt outcome diff_list)"

section \<open>Placing a generated test (\<open>test_generator.py\<close>)\<close>

record generated_test =
  test_name :: string
  test_code :: string
  tested_function :: string
  test_file_path :: string
  framework :: string

definition get_test_imports :: "string \<Rightarrow> string" where
  "get_test_imports fw =
     (if fw = ''pytest'' then ''import pytest\<newline>from unittest.mock import Mock, patch''
      else ''import unittest\<newline>from unittest.mock import Mock, patch'')"

text \<open>
  The text files under the test root, by path. \<open>write_test_to_file\<close> returns its boolean
  and the files as they are afterwards. Creating the parent directory changes no file,
  and the path is taken as the operating system resolves it.
\<close>

definition write_test_to_file ::
  "(string \<rightharpoonup> string) \<Rightarrow> generated_test \<Rightarrow> bool \<Rightarrow> bool \<times> (string \<rightharpoonup> string)" where
  "write_test_to_file files test overwrite =
     (let test_path = test_file_path test
      in if files test_path \<noteq> None \<and> \<not> overwrite then
           (let existing_content = the (files test_path)
            in if contains existing_content (''def '' @ test_name test) then (False, files)
               else (True, files(test_path \<mapsto>
                       existing_content @ ''\<newline>\<newline>'' @ test_code test @ ''\<newline>'')))
         else
           (let imports = get_test_imports (framework test)
            in (True, files(test_path \<mapsto> imports @ ''\<newline>\<newline>'' @ test_code test @ ''\<newline>''))))"

section \<open>The structure analyzer (\<open>ast_analyzer.py\<close>)\<close>

text \<open>
  What \<open>_parse_function\<close> reads off a function definition node other than its subtree:
  the name, the line numbers, the positional parameters with the text that \<open>ast.unparse\<close>
  gives for an annotation, the text of the return annotation, the docstring that
  \<open>ast.get_docstring\<close> returns, and the texts of the decorators. Likewise for a class.
\<close>

record def_header =
  def_name :: string
  def_lineno :: int
  def_end_lineno :: "int option"
  def_args :: "(string \<times> string option) list"
  def_returns :: "string option"
  def_docstring :: "string option"
  def_decorators :: "string list"

record class_header =
  class_name :: string
  class_lineno :: int
  class_end_lineno :: "int option"
  class_bases :: "string list"
  class_docstring :: "string option"
  class_decorators :: "string list"

text \<open>
  The node classes that the analyzer does not take apart. \<open>IfExp\<close> is the conditional
  expression and \<open>AsyncFor\<close> the asynchronous loop; \<open>Other\<close> stands for every class that is
  not named here.
\<close>

datatype node_class = Module | If | While | For | AsyncFor | ExceptHandler | IfExp | Other

text \<open>
  The syntax tree of \<open>ast.parse\<close>. A function definition carries its child nodes in the
  order of \<open>ast.iter_child_nodes\<close>; a class definition carries the children before its
  body (bases and keywords), its body, and the children after it (decorators); an import
  carries its line and its aliases, each a name and an optional \<open>asname\<close>; an assignment
  carries its first target, its further targets and its value; a boolean operation
  carries its operands.
\<close>

datatype ast =
    FunctionDef def_header "ast list"
  | AsyncFunctionDef def_header "ast list"
  | ClassDef class_header "ast list" "ast list" "ast list"
  | Import int "(string \<times> string option) list"
  | ImportFrom int "string option" "string list"
  | Assign ast "ast list" ast
  | Name string
  | BoolOp "ast list"
  | Node node_class "ast list"

text \<open>
  \<open>ast.iter_child_nodes\<close>, each child with the fact that it is an element of the body of a
  class definition. The aliases of an import, the context of a name and the operator of
  a boolean operation are child nodes of their own, of classes the analyzer never tests
  for.
\<close>

fun tagged_children :: "ast \<Rightarrow> (bool \<times> ast) list" where
  "tagged_children (FunctionDef h cs) = map (Pair False) cs"
| "tagged_children (AsyncFunctionDef h cs) = map (Pair False) cs"
| "tagged_children (ClassDef h pre body post) =
     map (Pair False) pre @ map (Pair True) body @ map (Pair False) post"
| "tagged_children (Import line aliases) = map (\<lambda>a. (False, Node Other [])) aliases"
| "tagged_children (ImportFrom line modname aliases) = map (\<lambda>a. (False, Node Other [])) aliases"
| "tagged_children (Assign target targets val) =
     (False, target) # map (Pair False) targets @ [(False, val)]"
| "tagged_children (Name ident) = [(False, Node Other [])]"
| "tagged_children (BoolOp vals) = (False, Node Other []) # map (Pair False) vals"
| "tagged_children (Node c cs) = map (Pair False) cs"

text \<open>The number of nodes of a tree, which bounds the walk.\<close>

fun node_count :: "ast \<Rightarrow> nat" where
  "node_count (FunctionDef h cs) = Suc (sum_list (map node_count cs))"
| "node_count (AsyncFunctionDef h cs) = Suc (sum_list (map node_count cs))"
| "node_count (ClassDef h pre body post) =
     Suc (sum_list (map node_count pre) + sum_list (map node_count body)
          + sum_list (map node_count post))"
| "node_count (Import line aliases) = Suc (length aliases)"
| "node_count (ImportFrom line modname aliases) = Suc (length aliases)"
| "node_count (Assign target targets val) =
     Suc (node_count target + sum_list (map node_count targets) + node_count val)"
| "node_count (Name ident) = 2"
| "node_count (BoolOp vals) = Suc (Suc (sum_list (map node_count vals)))"
| "node_count (Node c cs) = Suc (sum_list (map node_count cs))"

text \<open>
  \<open>ast.walk\<close>: the nodes in breadth-first order, from a queue of nodes still to visit.
\<close>

function walk_queue :: "(bool \<times> ast) list \<Rightarrow> (bool \<times> ast) list" where
  "walk_queue [] = []"
| "walk_queue (p # todo) = p # walk_queue (todo @ tagged_children (snd p))"
  by pat_completeness auto
termination
proof (relation "measure (\<lambda>todo. sum_list (map (\<lambda>p. node_count (snd p)) todo))")
  show "wf (measure (\<lambda>todo. sum_list (map (\<lambda>p. node_count (snd p)) todo)))" by simp
next
  fix p :: "bool \<times> ast" and todo
  have "sum_list (map (\<lambda>p. node_count (snd p)) (tagged_children (snd p))) < node_count (snd p)"
    by (cases "snd p") (simp_all add: comp_def sum_list_triv)
  then show "(todo @ tagged_children (snd p), p # todo)
          \<in> measure (\<lambda>todo. sum_list (map (\<lambda>p. node_count (snd p)) todo))"
    by simp
qed

definition walk_tagged :: "ast \<Rightarrow> (bool \<times> ast) list" where
  "walk_tagged tree = walk_queue [(False, tree)]"

definition walk :: "ast \<Rightarrow> ast list" where
  "walk node = map snd (walk_tagged node)"

record function_info =
  name :: string
  lineno :: int
  end_lineno :: int
  args :: "string list"
  returns :: "string option"
  is_async :: bool
  is_method :: bool
  docstring :: "string option"
  decorators :: "string list"
  complexity :: int

record class_info =
  cls_name :: string
  cls_lineno :: int
  cls_end_lineno :: int
  bases :: "string list"
  methods :: "function_info list"
  cls_docstring :: "string option"
  cls_decorators :: "string list"

record import_info =
  module :: string
  names :: "string list"
  import_lineno :: int
  is_from_import :: bool

text \<open>The metrics are floats in the source; their rounding is not modelled.\<close>

record code_metrics =
  lines_of_code :: nat
  cyclomatic_complexity :: real
  maintainability_index :: real
  halstead_metrics :: "(string \<times> real) list"
  functions_count :: nat
  classes_count :: nat
  average_function_complexity :: real

record file_analysis =
  analysis_file_path :: string
  analysis_functions :: "function_info list"
  analysis_classes :: "class_info list"
  analysis_imports :: "import_info list"
  global_variables :: "string list"
  metrics :: "code_metrics option"
  parse_errors :: "string list"

text \<open>
  The complexity loop of \<open>_parse_function\<close>: one step for each node of the walk, from the
  base value 1.
\<close>

fun complexity_step :: "int \<Rightarrow> ast \<Rightarrow> int" where
  "complexity_step c (Node cls cs) =
     (if cls = If \<or> cls = While \<or> cls = For \<or> cls = ExceptHandler then c + 1 else c)"
| "complexity_step c (BoolOp vals) = c + (int (length vals) - 1)"
| "complexity_step c n = c"

definition parse_complexity :: "ast \<Rightarrow> int" where
  "parse_complexity node = foldl complexity_step 1 (walk node)"

text \<open>\<open>x if x else y\<close> for an optional line number: \<open>None\<close> and 0 are false.\<close>

definition end_line :: "int option \<Rightarrow> int \<Rightarrow> int" where
  "end_line e l = (case e of None \<Rightarrow> l | Some n \<Rightarrow> if n = 0 then l else n)"

definition arg_text :: "string \<times> string option \<Rightarrow> string" where
  "arg_text a = (case snd a of None \<Rightarrow> fst a | Some annotation \<Rightarrow> fst a @ '': '' @ annotation)"

definition function_record :: "bool \<Rightarrow> def_header \<Rightarrow> ast \<Rightarrow> function_info" where
  "function_record async h node =
     \<lparr>name = def_name h, lineno = def_lineno h,
      end_lineno = end_line (def_end_lineno h) (def_lineno h),
      args = map arg_text (def_args h), returns = def_returns h, is_async = async,
      is_method = False, docstring = def_docstring h, decorators = def_decorators h,
      complexity = parse_complexity node\<rparr>"

text \<open>
  \<open>_parse_function\<close>, with \<open>None\<close> at a node that is not a function definition; its callers
  test the class of the node first.
\<close>

fun parse_function :: "ast \<Rightarrow> function_info option" where
  "parse_function (FunctionDef h cs) = Some (function_record False h (FunctionDef h cs))"
| "parse_function (AsyncFunctionDef h cs) = Some (function_record True h (AsyncFunctionDef h cs))"
| "parse_function n = None"

text \<open>
  \<open>_extract_functions\<close>: the function definitions of the walk that \<open>_is_method\<close> does not
  find in the body of a class definition.
\<close>

definition extract_functions :: "ast \<Rightarrow> function_info list" where
  "extract_functions tree =
     List.map_filter (\<lambda>p. if fst p then None else parse_function (snd p)) (walk_tagged tree)"

definition parse_class :: "class_header \<Rightarrow> ast list \<Rightarrow> class_info" where
  "parse_class h body =
     \<lparr>cls_name = class_name h, cls_lineno = class_lineno h,
      cls_end_lineno = end_line (class_end_lineno h) (class_lineno h),
      bases = class_bases h,
      methods = map (\<lambda>m. m\<lparr>is_method := True\<rparr>) (List.map_filter parse_function body),
      cls_docstring = class_docstring h, cls_decorators = class_decorators h\<rparr>"

definition extract_classes :: "ast \<Rightarrow> class_info list" where
  "extract_classes tree =
     List.map_filter
       (\<lambda>n. case n of ClassDef h pre body post \<Rightarrow> Some (parse_class h body) | _ \<Rightarrow> None)
       (walk tree)"

definition extract_imports :: "ast \<Rightarrow> import_info list" where
  "extract_imports tree =
     concat (map
       (\<lambda>n. case n of
               Import line aliases \<Rightarrow>
                 map (\<lambda>a. \<lparr>module = fst a,
                            names = [case snd a of None \<Rightarrow> fst a
                                     | Some asname \<Rightarrow> if asname = [] then fst a else asname],
                            import_lineno = line, is_from_import = False\<rparr>) aliases
             | ImportFrom line modname aliases \<Rightarrow>
                 [\<lparr>module = (case modname of None \<Rightarrow> [] | Some m \<Rightarrow> m), names = aliases,
                   import_lineno = line, is_from_import = True\<rparr>]
             | _ \<Rightarrow> [])
       (walk tree))"

definition extract_global_variables :: "ast \<Rightarrow> string list" where
  "extract_global_variables tree =
     List.map_filter
       (\<lambda>n. case n of
               Assign target targets val \<Rightarrow> (case target of Name ident \<Rightarrow> Some ident | _ \<Rightarrow> None)
             | _ \<Rightarrow> None)
       (walk tree)"

text \<open>
  What the analyzer is given: reading a file as text (\<open>Inl\<close> the text of the \<open>OSError\<close> or
  \<open>UnicodeDecodeError\<close>), \<open>ast.parse\<close> on a source and a file name, which returns a tree,
  raises \<open>SyntaxError\<close> with a text, or raises something else, the three functions of the
  metrics library (\<open>None\<close> when one raises), whether a path exists, and the paths that a
  glob pattern matches under a directory.
\<close>

datatype parse_outcome = Parsed ast | Syntax_error string | Raised pyerror

datatype halstead = No_total | Total real real real

record analysis_env =
  read_text :: "string \<Rightarrow> string + string"
  ast_parse :: "string \<Rightarrow> string \<Rightarrow> parse_outcome"
  cc_visit :: "string \<Rightarrow> real list option"
  mi_visit :: "string \<Rightarrow> real option"
  h_visit :: "string \<Rightarrow> halstead option"
  path_exists :: "string \<Rightarrow> bool"
  glob :: "string \<Rightarrow> string \<Rightarrow> string list"

definition calculate_metrics :: "analysis_env \<Rightarrow> string \<Rightarrow> file_analysis \<Rightarrow> code_metrics" where
  "calculate_metrics env source_code analysis =
     (let lines_of_code = length (filter (\<lambda>line. strip line \<noteq> []) (splitlines source_code));
          avg_complexity =
            (case cc_visit env source_code of
               None \<Rightarrow> 1
             | Some cc_results \<Rightarrow>
                 if cc_results \<noteq> [] then sum_list cc_results / real (length cc_results) else 1);
          total_complexity =
            (case cc_visit env source_code of None \<Rightarrow> 1 | Some cc_results \<Rightarrow> sum_list cc_results);
          maintainability =
            (case mi_visit env source_code of None \<Rightarrow> 100 | Some mi_score \<Rightarrow> mi_score);
          halstead_dict =
            (case h_visit env source_code of
               None \<Rightarrow> []
             | Some No_total \<Rightarrow> [(''volume'', 0), (''difficulty'', 0), (''effort'', 0)]
             | Some (Total v d e) \<Rightarrow> [(''volume'', v), (''difficulty'', d), (''effort'', e)])
      in \<lparr>lines_of_code = lines_of_code, cyclomatic_complexity = total_complexity,
          maintainability_index = maintainability, halstead_metrics = halstead_dict,
          functions_count = length (analysis_functions analysis),
          classes_count = length (analysis_classes analysis),
          average_function_complexity = avg_complexity\<rparr>)"

text \<open>
  \<open>analyze_file\<close>. An exception of \<open>ast.parse\<close> other than \<open>SyntaxError\<close> is not handled
  and leaves the function.
\<close>

definition analyze_file :: "analysis_env \<Rightarrow> string \<Rightarrow> pyerror + file_analysis" where
  "analyze_file env path =
     (let analysis = \<lparr>analysis_file_path = path, analysis_functions = [], analysis_classes = [],
                       analysis_imports = [], global_variables = [], metrics = None,
                       parse_errors = []\<rparr>
      in case read_text env path of
           Inl e \<Rightarrow>
             Inr (analysis\<lparr>parse_errors := parse_errors analysis @ [''Failed to read file: '' @ e]\<rparr>)
         | Inr source_code \<Rightarrow>
             (case ast_parse env source_code path of
                Syntax_error e \<Rightarrow>
                  Inr (analysis\<lparr>parse_errors := parse_errors analysis @ [''Syntax error: '' @ e]\<rparr>)
              | Raised err \<Rightarrow> Inl err
              | Parsed tree \<Rightarrow>
                  (let extracted = analysis
                         \<lparr>analysis_functions := extract_functions tree,
                          analysis_classes := extract_classes tree,
                          analysis_imports := extract_imports tree,
                          global_variables := extract_global_variables tree\<rparr>
                   in Inr (extracted\<lparr>metrics := Some (calculate_metrics env source_code extracted)\<rparr>))))"

definition find_test_functions :: "analysis_env \<Rightarrow> string \<Rightarrow> pyerror + function_info list" where
  "find_test_functions env path =
     (case analyze_file env path of
        Inl e \<Rightarrow> Inl e
      | Inr analysis \<Rightarrow>
          Inr (filter (\<lambda>func. startswith (name func) ''test_'') (analysis_functions analysis)))"

section \<open>Learning test patterns (\<open>test_generator.py\<close>)\<close>

record test_patterns =
  patterns_framework :: string
  patterns_imports :: "string list"
  patterns_fixtures :: "string list"
  patterns_test_structure :: string
  patterns_examples :: "function_info list"

definition add_import :: "string list \<Rightarrow> import_info \<Rightarrow> string list" where
  "add_import acc imp = (if module imp \<in> set acc then acc else acc @ [module imp])"

definition detect_framework :: "string \<Rightarrow> import_info \<Rightarrow> string" where
  "detect_framework fw imp =
     (if module imp = ''pytest'' then ''pytest''
      else if module imp = ''unittest'' then ''unittest''
      else fw)"

text \<open>
  The body of the loop of \<open>_discover_test_patterns\<close> for one test file. An exception ends
  the body and is swallowed; what the body has stored before stays.
\<close>

definition discover_step :: "analysis_env \<Rightarrow> test_patterns \<Rightarrow> string \<Rightarrow> test_patterns" where
  "discover_step env patterns test_file =
     (case analyze_file env test_file of
        Inl e \<Rightarrow> patterns
      | Inr analysis \<Rightarrow>
          (let with_imports = patterns
                 \<lparr>patterns_imports :=
                    foldl add_import (patterns_imports patterns) (analysis_imports analysis)\<rparr>
           in case find_test_functions env test_file of
                Inl e \<Rightarrow> with_imports
              | Inr test_functions \<Rightarrow>
                  (let with_examples =
                         (if test_functions \<noteq> [] then
                            with_imports\<lparr>patterns_examples :=
                              patterns_examples with_imports @ take 2 test_functions\<rparr>
                          else with_imports)
                   in with_examples
                        \<lparr>patterns_framework :=
                           foldl detect_framework (patterns_framework with_examples)
                             (analysis_imports analysis)\<rparr>)))"

text \<open>The test files that the scan finds, and the ones it analyzes.\<close>

definition test_files :: "analysis_env \<Rightarrow> string \<Rightarrow> string list" where
  "test_files env test_dir = glob env test_dir ''**/test_*.py'' @ glob env test_dir ''**/*_test.py''"

text \<open>
  \<open>_discover_test_patterns\<close>; the second argument is the test framework of the
  configuration.
\<close>

definition discover_test_patterns :: "analysis_env \<Rightarrow> string \<Rightarrow> string \<Rightarrow> test_patterns" where
  "discover_test_patterns env test_framework test_dir =
     (let patterns = \<lparr>patterns_framework = test_framework, patterns_imports = [],
                       patterns_fixtures = [], patterns_test_structure = [],
                       patterns_examples = []\<rparr>
      in if \<not> path_exists env test_dir then patterns
         else if test_files env test_dir = [] then patterns
         else foldl (discover_step env) patterns (take 3 (test_files env test_dir)))"

section \<open>Notions of the specification and examples\<close>

text \<open>
  The files that a scan analyzes: the first three that it finds, when the test root
  exists. The imports that it reads are those of the analyzed files whose analysis
  returns, in the order of the files.
\<close>

definition analyzed_files :: "analysis_env \<Rightarrow> string \<Rightarrow> string list" where
  "analyzed_files env test_dir =
     (if path_exists env test_dir then take 3 (test_files env test_dir) else [])"

definition scanned_imports :: "analysis_env \<Rightarrow> string \<Rightarrow> import_info list" where
  "scanned_imports env test_dir =
     concat (map (\<lambda>p. case analyze_file env p of Inl e \<Rightarrow> [] | Inr a \<Rightarrow> analysis_imports a)
       (analyzed_files env test_dir))"

text \<open>An import of one of the two testing frameworks that the scan knows.\<close>

definition known_framework :: "import_info \<Rightarrow> bool" where
  "known_framework imp = (module imp = ''pytest'' \<or> module imp = ''unittest'')"

text \<open>
  The decision points of a subtree: one for every node whose class satisfies a given
  test, and the number of operands less one for every boolean operation.
\<close>

fun points :: "(node_class \<Rightarrow> bool) \<Rightarrow> ast \<Rightarrow> int" where
  "points P (FunctionDef h cs) = sum_list (map (points P) cs)"
| "points P (AsyncFunctionDef h cs) = sum_list (map (points P) cs)"
| "points P (ClassDef h pre body post) =
     sum_list (map (points P) pre) + sum_list (map (points P) body)
       + sum_list (map (points P) post)"
| "points P (Import line aliases) = 0"
| "points P (ImportFrom line modname aliases) = 0"
| "points P (Assign target targets val) =
     points P target + sum_list (map (points P) targets) + points P val"
| "points P (Name ident) = 0"
| "points P (BoolOp vals) = (int (length vals) - 1) + sum_list (map (points P) vals)"
| "points P (Node cls cs) = (if P cls then 1 else 0) + sum_list (map (points P) cs)"

text \<open>
  In the words of the specification a decision node is a conditional, a loop or an
  exception handler: the \<open>if\<close> statement and the conditional expression, the \<open>while\<close>, \<open>for\<close>
  and \<open>async for\<close> loops, and the handler.
\<close>

definition spec_decision :: "node_class \<Rightarrow> bool" where
  "spec_decision cls =
     (cls = If \<or> cls = IfExp \<or> cls = While \<or> cls = For \<or> cls = AsyncFor \<or> cls = ExceptHandler)"

text \<open>The classes that the code adds one for.\<close>

definition counted_decision :: "node_class \<Rightarrow> bool" where
  "counted_decision cls = (cls = If \<or> cls = While \<or> cls = For \<or> cls = ExceptHandler)"

text \<open>
  The tree of
  \<^verbatim>\<open>def f(x):
    if x:
        return 1
    return 2\<close>
  with the \<open>arguments\<close> node and its \<open>arg\<close>, the \<open>if\<close> statement with its test and its
  \<open>return\<close>, and the last \<open>return\<close>, each \<open>return\<close> with its constant.
\<close>

definition one_branch :: ast where
  "one_branch =
     FunctionDef
       \<lparr>def_name = ''f'', def_lineno = 1, def_end_lineno = Some 4, def_args = [(''x'', None)],
        def_returns = None, def_docstring = None, def_decorators = []\<rparr>
       [Node Other [Node Other []],
        Node If [Name ''x'', Node Other [Node Other []]],
        Node Other [Node Other []]]"

text \<open>
  The tree of
  \<^verbatim>\<open>async def g(ys):
    async for y in ys:
        z = y if y else 0\<close>
  with the loop's target, iterator and body, the body an assignment of a conditional
  expression.
\<close>

definition async_loop :: ast where
  "async_loop =
     AsyncFunctionDef
       \<lparr>def_name = ''g'', def_lineno = 1, def_end_lineno = Some 3, def_args = [(''ys'', None)],
        def_returns = None, def_docstring = None, def_decorators = []\<rparr>
       [Node Other [Node Other []],
        Node AsyncFor
          [Name ''y'', Name ''ys'',
           Assign (Name ''z'') [] (Node IfExp [Name ''y'', Name ''y'', Node Other []])]]"

text \<open>
  A test root \<open>tests\<close> with two files and no metrics library at hand. The file
  \<open>test_a.py\<close> is
  \<^verbatim>\<open>import pytest
def test_one(): pass
def test_two(): pass\<close>
  and the file \<open>test_b.py\<close> is
  \<^verbatim>\<open>import unittest
def test_three(): pass
def test_four(): pass\<close>
\<close>

definition test_a_source :: string where
  "test_a_source = ''import pytest\<newline>def test_one(): pass\<newline>def test_two(): pass\<newline>''"

definition test_b_source :: string where
  "test_b_source = ''import unittest\<newline>def test_three(): pass\<newline>def test_four(): pass\<newline>''"

definition test_def :: "string \<Rightarrow> int \<Rightarrow> ast" where
  "test_def ident line =
     FunctionDef
       \<lparr>def_name = ident, def_lineno = line, def_end_lineno = Some line, def_args = [],
        def_returns = None, def_docstring = None, def_decorators = []\<rparr>
       [Node Other [], Node Other []]"

definition test_a_tree :: ast where
  "test_a_tree =
     Node Module [Import 1 [(''pytest'', None)], test_def ''test_one'' 2, test_def ''test_two'' 3]"

definition test_b_tree :: ast where
  "test_b_tree =
     Node Module
       [Import 1 [(''unittest'', None)], test_def ''test_three'' 2, test_def ''test_four'' 3]"

definition two_files_env :: analysis_env where
  "two_files_env =
     \<lparr>read_text = (\<lambda>path. if path = ''tests/test_a.py'' then Inr test_a_source
                           else if path = ''tests/test_b.py'' then Inr test_b_source
                           else Inl ''No such file or directory''),
      ast_parse = (\<lambda>source filename. if source = test_a_source then Parsed test_a_tree
                                     else if source = test_b_source then Parsed test_b_tree
                                     else Syntax_error ''invalid syntax''),
      cc_visit = (\<lambda>source. None), mi_visit = (\<lambda>source. None), h_visit = (\<lambda>source. None),
      path_exists = (\<lambda>path. path = ''tests''),
      glob = (\<lambda>dir pattern. if dir = ''tests'' \<and> pattern = ''**/test_*.py''
                              then [''tests/test_a.py'', ''tests/test_b.py''] else [])\<rparr>"

text \<open>
  The same root with four files: \<open>test_c.py\<close> has the text of \<open>test_a.py\<close> and \<open>test_d.py\<close>
  the text of \<open>test_b.py\<close>.
\<close>

definition four_files_env :: analysis_env where
  "four_files_env =
     two_files_env
       \<lparr>read_text := (\<lambda>path. if path = ''tests/test_a.py'' \<or> path = ''tests/test_c.py''
                             then Inr test_a_source
                             else if path = ''tests/test_b.py'' \<or> path = ''tests/test_d.py''
                             then Inr test_b_source
                             else Inl ''No such file or directory''),
        glob := (\<lambda>dir pattern. if dir = ''tests'' \<and> pattern = ''**/test_*.py''
                                then [''tests/test_a.py'', ''tests/test_b.py'', ''tests/test_c.py'',
                                      ''tests/test_d.py'']
                                else [])\<rparr>"

section \<open>Properties of the diff reader\<close>

lemma patch_lines_nonempty: "patch_lines s \<noteq> []"
  by (induction s) (auto split: list.splits)

lemma patch_lines_Cons:
  "patch_lines (c # cs) =
     (if c = CHR 0x0A then [] # patch_lines cs
      else (c # hd (patch_lines cs)) # tl (patch_lines cs))"
  using patch_lines_nonempty[of cs] by (cases "patch_lines cs") auto

lemma count_str_skip:
  "CHR 0x0A \<notin> set xs \<Longrightarrow> count_str (xs @ ys) (CHR 0x0A # p) = count_str ys (CHR 0x0A # p)"
  by (induction xs) (auto simp: startswith_def)

lemma hd_patch_lines_startswith:
  "CHR 0x0A \<notin> set p \<Longrightarrow> startswith (hd (patch_lines s)) p = startswith s p"
proof (induction s arbitrary: p)
  case Nil
  then show ?case by (simp add: startswith_def)
next
  case (Cons c cs)
  show ?case
  proof (cases p)
    case Nil
    then show ?thesis by (simp add: startswith_def)
  next
    case (Cons q qs)
    with Cons.prems have "CHR 0x0A \<notin> set qs" "q \<noteq> CHR 0x0A" by auto
    with Cons.IH[of qs] Cons show ?thesis
      by (auto simp: startswith_def patch_lines_Cons simp del: patch_lines.simps)
  qed
qed

lemma count_str_lines:
  assumes "CHR 0x0A \<notin> set p"
  shows "count_str s (CHR 0x0A # p) = length (filter (\<lambda>l. startswith l p) (tl (patch_lines s)))"
proof (induction "length s" arbitrary: s rule: less_induct)
  case less
  show ?case
  proof (cases s)
    case Nil
    then show ?thesis by simp
  next
    case (Cons c cs)
    show ?thesis
    proof (cases "c = CHR 0x0A")
      case False
      then have "count_str s (CHR 0x0A # p) = count_str cs (CHR 0x0A # p)"
        using Cons by (simp add: startswith_def)
      also have "\<dots> = length (filter (\<lambda>l. startswith l p) (tl (patch_lines cs)))"
        using less[of cs] Cons by simp
      finally show ?thesis using Cons False by (simp add: patch_lines_Cons del: patch_lines.simps)
    next
      case True
      have tl_eq: "tl (patch_lines s) = patch_lines cs" using Cons True by simp
      have split: "patch_lines cs = hd (patch_lines cs) # tl (patch_lines cs)"
        using patch_lines_nonempty[of cs] by simp
      have IH: "count_str cs (CHR 0x0A # p) = length (filter (\<lambda>l. startswith l p) (tl (patch_lines cs)))"
        using less[of cs] Cons by simp
      show ?thesis
      proof (cases "startswith cs p")
        case False
        then have "count_str s (CHR 0x0A # p) = count_str cs (CHR 0x0A # p)"
          using Cons True by (simp add: startswith_def)
        moreover have "\<not> startswith (hd (patch_lines cs)) p"
          using False hd_patch_lines_startswith[OF assms] by simp
        then have "filter (\<lambda>l. startswith l p) (patch_lines cs) = filter (\<lambda>l. startswith l p) (tl (patch_lines cs))"
          using split by (metis filter.simps(2))
        ultimately show ?thesis using IH tl_eq by simp
      next
        case sw: True
        then have cs_eq: "cs = p @ drop (length p) cs"
          by (metis append_take_drop_id startswith_def)
        have "count_str s (CHR 0x0A # p) = Suc (count_str (drop (length p) cs) (CHR 0x0A # p))"
          using Cons True sw by (simp add: startswith_def)
        also have "count_str (drop (length p) cs) (CHR 0x0A # p) = count_str cs (CHR 0x0A # p)"
          using count_str_skip[OF assms, of "drop (length p) cs" p] cs_eq by simp
        finally have c: "count_str s (CHR 0x0A # p) = Suc (count_str cs (CHR 0x0A # p))" .
        have "startswith (hd (patch_lines cs)) p"
          using sw hd_patch_lines_startswith[OF assms] by simp
        then have "length (filter (\<lambda>l. startswith l p) (patch_lines cs)) = Suc (length (filter (\<lambda>l. startswith l p) (tl (patch_lines cs))))"
          using split by (metis filter.simps(2) length_Cons)
        then show ?thesis using c IH tl_eq by simp
      qed
    qed
  qed
qed

lemma startswith_longer:
  assumes "startswith l (p @ q)"
  shows "startswith l p"
proof -
  from assms have a: "take (length (p @ q)) l = p @ q" by (simp add: startswith_def)
  have "take (length p) l = take (length p) (take (length (p @ q)) l)" by simp
  also have "\<dots> = take (length p) (p @ q)" using a by simp
  finally show ?thesis by (simp add: startswith_def)
qed

lemma filter_diff_length:
  assumes "\<And>x. Q x \<Longrightarrow> P x"
  shows "int (length (filter P xs)) - int (length (filter Q xs)) = int (length (filter (\<lambda>x. P x \<and> \<not> Q x) xs))"
  using assms by (induction xs) auto

lemma additions_lines:
  "additions (parse_diff_item d) = int (length (filter added_line (tl (patch_lines (decode_diff (diff d))))))"
proof -
  have sw: "\<And>l. startswith l ''+++'' \<Longrightarrow> startswith l ''+''"
    using startswith_longer[of _ "''+''" "''++''"] by simp
  show ?thesis
    unfolding parse_diff_item_def Let_def added_line_def
    using filter_diff_length[of "\<lambda>l. startswith l ''+++''" "\<lambda>l. startswith l ''+''", OF sw]
    by (simp add: count_str_lines)
qed


lemma deletions_lines:
  "deletions (parse_diff_item d) = int (length (filter removed_line (tl (patch_lines (decode_diff (diff d))))))"
proof -
  have sw: "\<And>l. startswith l ''---'' \<Longrightarrow> startswith l ''-''"
    using startswith_longer[of _ "''-''" "''--''"] by simp
  show ?thesis
    unfolding parse_diff_item_def Let_def removed_line_def
    using filter_diff_length[of "\<lambda>l. startswith l ''---''" "\<lambda>l. startswith l ''-''", OF sw]
    by (simp add: count_str_lines)
qed

lemma header_only_no_counted_line:
  assumes "\<forall>l \<in> set ls. startswith l ''+++'' \<or> startswith l ''---''"
  shows "filter added_line (tl ls) = [] \<and> filter removed_line (tl ls) = []"
proof -
  have "\<And>l. l \<in> set (tl ls) \<Longrightarrow> \<not> added_line l \<and> \<not> removed_line l"
  proof -
    fix l assume "l \<in> set (tl ls)"
    then have "l \<in> set ls" by (metis list.sel(2) list.set_sel(2))
    with assms have "startswith l ''+++'' \<or> startswith l ''---''" by blast
    then show "\<not> added_line l \<and> \<not> removed_line l"
      by (cases l) (auto simp: added_line_def removed_line_def startswith_def)
  qed
  then show ?thesis by (simp add: filter_empty_conv)
qed

text \<open>
  Claim C7, as the code has it. For every change record produced from a diff index, the
  addition count is the number of patch-body lines after the first one that begin with
  \<open>+\<close> and not with \<open>+++\<close>, and the deletion count the number of those that begin
  with \<open>-\<close> and not with \<open>---\<close>. Both counts are never negative, and a patch whose
  lines are all \<open>+++\<close> or \<open>---\<close> header lines yields 0 and 0.
\<close>

theorem parse_diff_index_counts:
  assumes "i < length ds"
  shows "additions (parse_diff_index ds ! i)
           = int (length (filter added_line (tl (patch_lines (decode_diff (diff (ds ! i)))))))
       \<and> deletions (parse_diff_index ds ! i)
           = int (length (filter removed_line (tl (patch_lines (decode_diff (diff (ds ! i)))))))
       \<and> 0 \<le> additions (parse_diff_index ds ! i) \<and> 0 \<le> deletions (parse_diff_index ds ! i)
       \<and> ((\<forall>l \<in> set (patch_lines (decode_diff (diff (ds ! i)))). startswith l ''+++'' \<or> startswith l ''---'')
            \<longrightarrow> additions (parse_diff_index ds ! i) = 0 \<and> deletions (parse_diff_index ds ! i) = 0)"
  using assms header_only_no_counted_line[of "patch_lines (decode_diff (diff (ds ! i)))"]
  by (simp add: parse_diff_index_def additions_lines deletions_lines)

text \<open>The header-only case of C7 at a patch of two header lines.\<close>

theorem parse_diff_index_counts_witness:
  "additions (parse_diff_index [\<lparr>new_file = False, deleted_file = False, renamed = False,
      b_path = Some ''x'', a_path = Some ''x'', diff = Utf8 ''--- a/x\<newline>+++ b/x''\<rparr>] ! 0) = 0
   \<and> deletions (parse_diff_index [\<lparr>new_file = False, deleted_file = False, renamed = False,
      b_path = Some ''x'', a_path = Some ''x'', diff = Utf8 ''--- a/x\<newline>+++ b/x''\<rparr>] ! 0) = 0"
proof -
  let ?ds = "[\<lparr>new_file = False, deleted_file = False, renamed = False,
      b_path = Some ''x'', a_path = Some ''x'', diff = Utf8 ''--- a/x\<newline>+++ b/x''\<rparr>]"
  have len: "0 < length ?ds" by simp
  have header_only: "\<forall>l \<in> set (patch_lines (decode_diff (diff (?ds ! 0)))).
      startswith l ''+++'' \<or> startswith l ''---''"
    by (simp add: decode_diff_def startswith_def)
  from parse_diff_index_counts [OF len] header_only show ?thesis by blast
qed

text \<open>
  Claim C7 as stated counts every patch-body line that begins with the marker. The code
  looks for a line feed followed by the marker, so the first line of the patch is never
  counted: the patch \<open>+a\<close>, \<open>+b\<close> has two added lines and an addition count of 1.
\<close>

theorem first_line_not_counted:
  "additions (parse_diff_index [\<lparr>new_file = False, deleted_file = False, renamed = False,
      b_path = Some ''x'', a_path = Some ''x'', diff = Utf8 ''+a\<newline>+b''\<rparr>] ! 0)
   \<noteq> int (length (filter added_line (patch_lines ''+a\<newline>+b'')))"
  by (simp add: parse_diff_index_def parse_diff_item_def decode_diff_def added_line_def startswith_def)

lemma splitlines_aux_no_nl:
  "CHR 0x0A \<notin> set cur \<Longrightarrow> l \<in> set (splitlines_aux cur s) \<Longrightarrow> CHR 0x0A \<notin> set l"
  by (induction cur s rule: splitlines_aux.induct) (auto simp: is_linebreak_def split: if_splits)

lemma count_str_no_nl: "CHR 0x0A \<notin> set xs \<Longrightarrow> count_str xs (CHR 0x0A # p) = 0"
  using count_str_skip[of xs "[]" p] by simp

lemma count_joined_plus_lines:
  assumes "\<forall>l \<in> set ls. CHR 0x0A \<notin> set l"
  shows "count_str (join ''\<newline>'' (map (\<lambda>line. CHR ''+'' # line) ls)) ''\<newline>+'' = length ls - 1"
  using assms
proof (induction ls rule: induct_list012)
  case 1
  then show ?case by simp
next
  case (2 x)
  then show ?case using count_str_no_nl[of "CHR ''+'' # x" "''+''"] by simp
next
  case (3 x y zs)
  let ?rest = "join ''\<newline>'' (map (\<lambda>line. CHR ''+'' # line) (y # zs))"
  obtain t where t: "?rest = CHR ''+'' # t" by (cases zs) auto
  have IH: "count_str ?rest ''\<newline>+'' = length (y # zs) - 1" using 3 by simp
  have t_count: "count_str (CHR ''+'' # t) ''\<newline>+'' = count_str t ''\<newline>+''"
    by (simp add: startswith_def)
  have "count_str (join ''\<newline>'' (map (\<lambda>line. CHR ''+'' # line) (x # y # zs))) ''\<newline>+''
        = count_str ((CHR ''+'' # x) @ (CHR 0x0A # ?rest)) ''\<newline>+''" by simp
  also have "\<dots> = count_str (CHR 0x0A # ?rest) ''\<newline>+''"
    using 3(3) count_str_skip[of "CHR ''+'' # x" "CHR 0x0A # ?rest" "''+''"] by simp
  also have "\<dots> = Suc (count_str t ''\<newline>+'')"
    unfolding t by (simp add: startswith_def)
  also have "count_str t ''\<newline>+'' = count_str ?rest ''\<newline>+''"
    using t t_count by simp
  finally show ?case using IH by simp
qed

text \<open>
  In general the record of a readable staged file reports one addition less than the
  file has lines, since the synthesized patch has no line feed before its first line.
\<close>

lemma initial_commit_item_additions:
  assumes "worktree r path = Some content"
  shows "additions (initial_commit_item r path) = int (length (splitlines content) - 1)"
proof -
  have nl: "\<forall>l \<in> set (splitlines content). CHR 0x0A \<notin> set l"
    using splitlines_aux_no_nl[of "[]"] by (auto simp: splitlines_def)
  have "join ''\<newline>'' (map (\<lambda>line. CHR ''+'' # line) ls) = [] \<Longrightarrow> ls = []" for ls
    by (induction ls rule: induct_list012) auto
  then show ?thesis
    using assms count_joined_plus_lines[OF nl]
    by (auto simp: initial_commit_item_def Let_def)
qed

text \<open>
  Claim C6 at its scenario: the comparison against \<open>HEAD\<close> fails with \<open>GitCommandError\<close>,
  and the one staged file \<open>a.py\<close> holds the two lines \<open>x = 1\<close> and \<open>y = 2\<close>. The staged
  diff is one record of kind \<open>A\<close> whose patch is each line prefixed with \<open>+\<close>, with 0
  deletions, and with 1 addition where the claim says 2.
\<close>

theorem initial_commit_two_lines:
  "get_staged_diff \<lparr>index_diff_worktree = [], index_diff_head = GitCommandError,
      index_entries = [(''a.py'', 0)],
      worktree = (\<lambda>p. if p = ''a.py'' then Some ''x = 1\<newline>y = 2\<newline>'' else None)\<rparr>
   = Inr [\<lparr>file_path = ''a.py'', change_type = ''A'', additions = 1, deletions = 0,
           diff_content = ''+x = 1\<newline>+y = 2'', old_path = None\<rparr>]"
  by (simp add: get_staged_diff_def get_initial_commit_diff_def initial_commit_item_def
      splitlines_def is_linebreak_def startswith_def)

section \<open>Properties of the reviewer\<close>

text \<open>\<open>_review_diffs\<close> sends exactly one request, whatever comes back.\<close>

lemma review_diffs_one_request: "snd (review_diffs rt outcome ds) = 1"
  by (simp add: review_diffs_def Let_def)

text \<open>
  Claim C10, as the code has it. When the staged, respectively unstaged, diff comes back
  empty, the reviewer returns score 100, the summary that there are no such changes to
  review, no issues and no recommendations, and it has sent no request to the reasoning
  engine; so it is when the comparison against \<open>HEAD\<close> fails with \<open>GitCommandError\<close> and
  nothing is staged. When the comparison raises another exception, the staged review
  raises it, whatever is staged, and returns no result; it has sent no request either.
\<close>

theorem no_changes_no_request:
  "(get_staged_diff r = Inr [] \<longrightarrow>
      review_staged_changes rt outcome r
        = (Inr \<lparr>overall_score = PInt 100, issues = [],
                summary = PStr ''No staged changes to review.'',
                recommendations = PList [], diff_analyzed = []\<rparr>, 0))
   \<and> (get_unstaged_diff r = [] \<longrightarrow>
      review_unstaged_changes rt outcome r
        = (Inr \<lparr>overall_score = PInt 100, issues = [],
                summary = PStr ''No unstaged changes to review.'',
                recommendations = PList [], diff_analyzed = []\<rparr>, 0))
   \<and> (index_diff_head r = GitCommandError \<and> index_entries r = [] \<longrightarrow>
      review_staged_changes rt outcome r
        = (Inr \<lparr>overall_score = PInt 100, issues = [],
                summary = PStr ''No staged changes to review.'',
                recommendations = PList [], diff_analyzed = []\<rparr>, 0))
   \<and> (index_diff_head r = Head_raises e \<longrightarrow>
      get_staged_diff r = Inl e \<and> review_staged_changes rt outcome r = (Inl e, 0))"
  by (simp add: review_staged_changes_def review_unstaged_changes_def no_changes_result_def
      get_staged_diff_def get_initial_commit_diff_def)

text \<open>
  C10 at a repository with a commit and nothing staged or changed, and at a repository
  without a commit and with nothing staged, where the comparison raises \<open>BadName\<close>: the
  first gives the two results, the second raises. The engine would have answered with an
  error.
\<close>

theorem no_changes_no_request_witness:
  "review_staged_changes (python_with []) (Inl RateLimitError)
     \<lparr>index_diff_worktree = [], index_diff_head = Head_diff [], index_entries = [],
      worktree = Map.empty\<rparr>
     = (Inr \<lparr>overall_score = PInt 100, issues = [],
             summary = PStr ''No staged changes to review.'',
             recommendations = PList [], diff_analyzed = []\<rparr>, 0)
   \<and> review_unstaged_changes (python_with []) (Inl RateLimitError)
     \<lparr>index_diff_worktree = [], index_diff_head = Head_diff [], index_entries = [],
      worktree = Map.empty\<rparr>
     = (Inr \<lparr>overall_score = PInt 100, issues = [],
             summary = PStr ''No unstaged changes to review.'',
             recommendations = PList [], diff_analyzed = []\<rparr>, 0)
   \<and> review_staged_changes (python_with []) (Inl RateLimitError)
     \<lparr>index_diff_worktree = [], index_diff_head = GitCommandError, index_entries = [],
      worktree = Map.empty\<rparr>
     = (Inr \<lparr>overall_score = PInt 100, issues = [],
             summary = PStr ''No staged changes to review.'',
             recommendations = PList [], diff_analyzed = []\<rparr>, 0)
   \<and> review_staged_changes (python_with []) (Inl RateLimitError)
     \<lparr>index_diff_worktree = [], index_diff_head = Head_raises BadName, index_entries = [],
      worktree = Map.empty\<rparr>
     = (Inl BadName, 0)"
proof -
  let ?r = "\<lparr>index_diff_worktree = [], index_diff_head = Head_diff [], index_entries = [],
      worktree = Map.empty\<rparr>"
  let ?g = "\<lparr>index_diff_worktree = [], index_diff_head = GitCommandError, index_entries = [],
      worktree = Map.empty\<rparr>"
  let ?b = "\<lparr>index_diff_worktree = [], index_diff_head = Head_raises BadName,
      index_entries = [], worktree = Map.empty\<rparr>"
  have staged: "get_staged_diff ?r = Inr []"
    by (simp add: get_staged_diff_def parse_diff_index_def)
  have unstaged: "get_unstaged_diff ?r = []"
    by (simp add: get_unstaged_diff_def parse_diff_index_def)
  from no_changes_no_request [of ?r "python_with []" "Inl RateLimitError"] staged unstaged
  have with_commit:
    "review_staged_changes (python_with []) (Inl RateLimitError) ?r
       = (Inr \<lparr>overall_score = PInt 100, issues = [],
               summary = PStr ''No staged changes to review.'',
               recommendations = PList [], diff_analyzed = []\<rparr>, 0)"
    "review_unstaged_changes (python_with []) (Inl RateLimitError) ?r
       = (Inr \<lparr>overall_score = PInt 100, issues = [],
               summary = PStr ''No unstaged changes to review.'',
               recommendations = PList [], diff_analyzed = []\<rparr>, 0)"
    by simp_all
  from no_changes_no_request [of ?g "python_with []" "Inl RateLimitError"]
  have handled:
    "review_staged_changes (python_with []) (Inl RateLimitError) ?g
       = (Inr \<lparr>overall_score = PInt 100, issues = [],
               summary = PStr ''No staged changes to review.'',
               recommendations = PList [], diff_analyzed = []\<rparr>, 0)"
    by simp
  from no_changes_no_request [of ?b "python_with []" "Inl RateLimitError" BadName]
  have raised: "review_staged_changes (python_with []) (Inl RateLimitError) ?b = (Inl BadName, 0)"
    by simp
  show ?thesis by (intro conjI) (rule with_commit handled raised)+
qed

text \<open>
  The decode-failure half of claim C3: when \<open>json.loads\<close> rejects the extracted text, the
  result is the minimal one, with score 50, the first 500 characters of the reply as
  summary, no issues and the one recommendation.
\<close>

lemma parse_review_response_decode_failure:
  assumes "json_loads rt (json_text response_text) = None"
  shows "parse_review_response rt response_text ds
           = Inr \<lparr>overall_score = PInt 50, issues = [],
                  summary = PStr (take 500 response_text),
                  recommendations =
                    PList [PStr ''Unable to parse structured review. See summary for details.''],
                  diff_analyzed = []\<rparr>"
  using assms by (simp add: parse_review_response_def fallback_result_def)

text \<open>
  Claim C3 fails on the code where the reply is valid JSON but not an object: the
  decoder succeeds, \<open>data.get\<close> raises \<open>AttributeError\<close>, and the handler names only
  \<open>JSONDecodeError\<close>, \<open>KeyError\<close> and \<open>ValueError\<close>, so the exception leaves the parser.
\<close>

theorem parse_review_response_non_object:
  assumes "json_loads rt (json_text response_text) = Some data"
      and "\<forall>kvs. data \<noteq> PDict kvs"
  shows "parse_review_response rt response_text ds = Inl AttributeError"
  using assms by (cases data) (simp_all add: parse_review_response_def py_get_def)

text \<open>The reply \<open>42\<close>, which \<open>json.loads\<close> decodes to the integer 42.\<close>

theorem parse_review_response_non_object_witness:
  "parse_review_response (python_with [(''42'', PInt 42)]) ''42'' [] = Inl AttributeError"
proof -
  have jt: "json_text ''42'' = ''42''"
    by (simp add: json_text_def startswith_def)
  have loads: "json_loads (python_with [(''42'', PInt 42)]) (json_text ''42'') = Some (PInt 42)"
    by (simp add: jt python_with_def)
  have shape: "\<forall>kvs. PInt 42 \<noteq> PDict kvs" by simp
  from parse_review_response_non_object [OF loads shape] show ?thesis .
qed

lemma issues_of_length: "issues_of xs = Inr is \<Longrightarrow> length is = length xs"
  by (induction xs arbitrary: "is") (auto split: sum.splits)

lemma issues_of_nth:
  "issues_of xs = Inr is \<Longrightarrow> i < length xs \<Longrightarrow> issue_of (xs ! i) = Inr (is ! i)"
proof (induction xs arbitrary: "is" i)
  case Nil
  then show ?case by simp
next
  case (Cons x xs)
  then show ?case by (cases i) (auto split: sum.splits)
qed

lemma issues_of_dicts:
  "\<forall>x \<in> set xs. \<exists>f. x = PDict f \<Longrightarrow> \<exists>is. issues_of xs = Inr is"
  by (induction xs) (auto simp: issue_of_def)

lemma issue_of_defaults:
  assumes "issue_of (PDict f) = Inr issue"
  shows "(map_of f ''severity'' = None \<longrightarrow> severity issue = PStr ''MEDIUM'')
       \<and> (map_of f ''category'' = None \<longrightarrow> category issue = PStr ''quality'')
       \<and> (map_of f ''file_path'' = None \<longrightarrow> issue_file_path issue = PStr [])
       \<and> (map_of f ''description'' = None \<longrightarrow> description issue = PStr [])
       \<and> (map_of f ''suggestion'' = None \<longrightarrow> suggestion issue = PStr [])
       \<and> (map_of f ''line_number'' = None \<longrightarrow> line_number issue = PNone)
       \<and> (map_of f ''code_example'' = None \<longrightarrow> code_example issue = PNone)"
  using assms by (auto simp: issue_of_def dict_get_def)

text \<open>
  Claim C5, as the code has it. For a payload whose issue items are objects and whose
  score \<open>int\<close> accepts, the structured tier returns a result in which a missing score is
  50, a float score is truncated to an integer, a missing summary is the empty string, a
  missing issue or recommendation list is empty, and the issue list has one entry for
  every item of the payload: an item that lacks a field is kept, and the missing field
  takes its default (severity \<open>MEDIUM\<close>, category \<open>quality\<close>, empty texts).
\<close>

theorem build_review_result_defaults:
  assumes items: "\<forall>x \<in> set (case dict_get kvs ''issues'' PNone of PList xs \<Rightarrow> xs | _ \<Rightarrow> []).
                    \<exists>f. x = PDict f"
      and score: "py_int rt (dict_get kvs ''overall_score'' (PInt 50)) = Inr n"
  shows "\<exists>r. build_review_result rt (PDict kvs) = Inr r
           \<and> overall_score r = PInt n
           \<and> (map_of kvs ''overall_score'' = None \<longrightarrow> n = 50)
           \<and> (\<forall>x. map_of kvs ''overall_score'' = Some (PFloat (Finite x))
                  \<longrightarrow> n = (if 0 \<le> x then \<lfloor>x\<rfloor> else \<lceil>x\<rceil>))
           \<and> (map_of kvs ''summary'' = None \<longrightarrow> summary r = PStr [])
           \<and> (map_of kvs ''issues'' = None \<longrightarrow> issues r = [])
           \<and> (map_of kvs ''recommendations'' = None \<longrightarrow> recommendations r = PList [])
           \<and> (\<forall>xs. map_of kvs ''issues'' = Some (PList xs) \<longrightarrow>
                 length (issues r) = length xs
                 \<and> (\<forall>i < length xs. \<forall>f. xs ! i = PDict f \<longrightarrow>
                       (map_of f ''severity'' = None \<longrightarrow> severity (issues r ! i) = PStr ''MEDIUM'')
                     \<and> (map_of f ''category'' = None \<longrightarrow> category (issues r ! i) = PStr ''quality'')
                     \<and> (map_of f ''file_path'' = None \<longrightarrow> issue_file_path (issues r ! i) = PStr [])
                     \<and> (map_of f ''description'' = None \<longrightarrow> description (issues r ! i) = PStr [])
                     \<and> (map_of f ''suggestion'' = None \<longrightarrow> suggestion (issues r ! i) = PStr [])))"
proof -
  let ?items = "case dict_get kvs ''issues'' PNone of PList xs \<Rightarrow> xs | _ \<Rightarrow> []"
  from issues_of_dicts [OF items] obtain ri where ri: "issues_of ?items = Inr ri" by blast
  let ?recs = "case dict_get kvs ''recommendations'' PNone of
                 PList recs \<Rightarrow> map (\<lambda>rec. PStr (py_str rt rec)) recs | _ \<Rightarrow> []"
  let ?r = "\<lparr>overall_score = PInt n, issues = ri, summary = dict_get kvs ''summary'' (PStr []),
             recommendations = PList ?recs, diff_analyzed = []\<rparr>"
  have built: "build_review_result rt (PDict kvs) = Inr ?r"
    using ri score by (simp add: build_review_result_def Let_def)
  have s50: "map_of kvs ''overall_score'' = None \<longrightarrow> n = 50"
    using score by (auto simp: dict_get_def py_int_def)
  have sfl: "\<forall>x. map_of kvs ''overall_score'' = Some (PFloat (Finite x))
                  \<longrightarrow> n = (if 0 \<le> x then \<lfloor>x\<rfloor> else \<lceil>x\<rceil>)"
    using score by (auto simp: dict_get_def py_int_def)
  have summ: "map_of kvs ''summary'' = None \<longrightarrow> summary ?r = PStr []"
    by (simp add: dict_get_def)
  have noiss: "map_of kvs ''issues'' = None \<longrightarrow> issues ?r = []"
    using ri by (auto simp: dict_get_def)
  have norecs: "map_of kvs ''recommendations'' = None \<longrightarrow> recommendations ?r = PList []"
    by (simp add: dict_get_def)
  have kept: "\<forall>xs. map_of kvs ''issues'' = Some (PList xs) \<longrightarrow>
                 length (issues ?r) = length xs
                 \<and> (\<forall>i < length xs. \<forall>f. xs ! i = PDict f \<longrightarrow>
                       (map_of f ''severity'' = None \<longrightarrow> severity (issues ?r ! i) = PStr ''MEDIUM'')
                     \<and> (map_of f ''category'' = None \<longrightarrow> category (issues ?r ! i) = PStr ''quality'')
                     \<and> (map_of f ''file_path'' = None \<longrightarrow> issue_file_path (issues ?r ! i) = PStr [])
                     \<and> (map_of f ''description'' = None \<longrightarrow> description (issues ?r ! i) = PStr [])
                     \<and> (map_of f ''suggestion'' = None \<longrightarrow> suggestion (issues ?r ! i) = PStr []))"
  proof (intro allI impI)
    fix xs assume xs: "map_of kvs ''issues'' = Some (PList xs)"
    then have eq: "?items = xs" by (simp add: dict_get_def)
    with ri have isx: "issues_of xs = Inr ri" by simp
    have len: "length (issues ?r) = length xs" using issues_of_length [OF isx] by simp
    have each: "\<forall>i < length xs. \<forall>f. xs ! i = PDict f \<longrightarrow>
                       (map_of f ''severity'' = None \<longrightarrow> severity (issues ?r ! i) = PStr ''MEDIUM'')
                     \<and> (map_of f ''category'' = None \<longrightarrow> category (issues ?r ! i) = PStr ''quality'')
                     \<and> (map_of f ''file_path'' = None \<longrightarrow> issue_file_path (issues ?r ! i) = PStr [])
                     \<and> (map_of f ''description'' = None \<longrightarrow> description (issues ?r ! i) = PStr [])
                     \<and> (map_of f ''suggestion'' = None \<longrightarrow> suggestion (issues ?r ! i) = PStr [])"
    proof (intro allI impI)
      fix i f assume i: "i < length xs" and f: "xs ! i = PDict f"
      from issues_of_nth [OF isx i] f have "issue_of (PDict f) = Inr (ri ! i)" by simp
      from issue_of_defaults [OF this]
      show "(map_of f ''severity'' = None \<longrightarrow> severity (issues ?r ! i) = PStr ''MEDIUM'')
                     \<and> (map_of f ''category'' = None \<longrightarrow> category (issues ?r ! i) = PStr ''quality'')
                     \<and> (map_of f ''file_path'' = None \<longrightarrow> issue_file_path (issues ?r ! i) = PStr [])
                     \<and> (map_of f ''description'' = None \<longrightarrow> description (issues ?r ! i) = PStr [])
                     \<and> (map_of f ''suggestion'' = None \<longrightarrow> suggestion (issues ?r ! i) = PStr [])"
        by simp
    qed
    from len each
    show "length (issues ?r) = length xs
                 \<and> (\<forall>i < length xs. \<forall>f. xs ! i = PDict f \<longrightarrow>
                       (map_of f ''severity'' = None \<longrightarrow> severity (issues ?r ! i) = PStr ''MEDIUM'')
                     \<and> (map_of f ''category'' = None \<longrightarrow> category (issues ?r ! i) = PStr ''quality'')
                     \<and> (map_of f ''file_path'' = None \<longrightarrow> issue_file_path (issues ?r ! i) = PStr [])
                     \<and> (map_of f ''description'' = None \<longrightarrow> description (issues ?r ! i) = PStr [])
                     \<and> (map_of f ''suggestion'' = None \<longrightarrow> suggestion (issues ?r ! i) = PStr []))"
      by blast
  qed
  have sc: "overall_score ?r = PInt n" by simp
  show ?thesis
    by (rule exI [of _ ?r], intro conjI) (rule built sc s50 sfl summ noiss norecs kept)+
qed

text \<open>
  C5 at a payload with a float score of 7.9 and one issue item that has only a severity.
\<close>

theorem build_review_result_defaults_witness:
  "\<exists>r. build_review_result (python_with [])
          (PDict [(''issues'', PList [PDict [(''severity'', PStr ''HIGH'')]]),
                  (''overall_score'', PFloat (Finite (79 / 10)))]) = Inr r
       \<and> overall_score r = PInt 7
       \<and> summary r = PStr []
       \<and> recommendations r = PList []
       \<and> length (issues r) = 1
       \<and> category (issues r ! 0) = PStr ''quality''
       \<and> description (issues r ! 0) = PStr []"
proof -
  let ?kvs = "[(''issues'', PList [PDict [(''severity'', PStr ''HIGH'')]]),
               (''overall_score'', PFloat (Finite (79 / 10)))]"
  have items: "\<forall>x \<in> set (case dict_get ?kvs ''issues'' PNone of PList xs \<Rightarrow> xs | _ \<Rightarrow> []).
                 \<exists>f. x = PDict f"
    by (simp add: dict_get_def)
  have score: "py_int (python_with []) (dict_get ?kvs ''overall_score'' (PInt 50)) = Inr 7"
    by (simp add: dict_get_def py_int_def)
  from build_review_result_defaults [OF items score]
  obtain r where r: "build_review_result (python_with []) (PDict ?kvs) = Inr r"
      "overall_score r = PInt 7"
      "map_of ?kvs ''summary'' = None \<longrightarrow> summary r = PStr []"
      "map_of ?kvs ''recommendations'' = None \<longrightarrow> recommendations r = PList []"
      "\<forall>xs. map_of ?kvs ''issues'' = Some (PList xs) \<longrightarrow>
                 length (issues r) = length xs
                 \<and> (\<forall>i < length xs. \<forall>f. xs ! i = PDict f \<longrightarrow>
                       (map_of f ''severity'' = None \<longrightarrow> severity (issues r ! i) = PStr ''MEDIUM'')
                     \<and> (map_of f ''category'' = None \<longrightarrow> category (issues r ! i) = PStr ''quality'')
                     \<and> (map_of f ''file_path'' = None \<longrightarrow> issue_file_path (issues r ! i) = PStr [])
                     \<and> (map_of f ''description'' = None \<longrightarrow> description (issues r ! i) = PStr [])
                     \<and> (map_of f ''suggestion'' = None \<longrightarrow> suggestion (issues r ! i) = PStr []))"
    by (elim exE conjE) (rule that)
  from r(3) have s: "summary r = PStr []" by simp
  from r(4) have c: "recommendations r = PList []" by simp
  from r(5) have l: "length (issues r) = 1"
    and d: "category (issues r ! 0) = PStr ''quality''" "description (issues r ! 0) = PStr []"
    by simp_all
  from r(1,2) s c l d show ?thesis by blast
qed

text \<open>
  Claim C5 as stated has an item that lacks a required field skipped. The code never
  skips: the item \<open>{"severity": "HIGH"}\<close>, which lacks the file path, the category, the
  description and the suggestion, is in the result.
\<close>

theorem incomplete_issue_not_skipped:
  "build_review_result (python_with [])
     (PDict [(''issues'', PList [PDict [(''severity'', PStr ''HIGH'')]])])
   = Inr \<lparr>overall_score = PInt 50,
          issues = [\<lparr>severity = PStr ''HIGH'', issue_file_path = PStr [], line_number = PNone,
                     category = PStr ''quality'', description = PStr [], suggestion = PStr [],
                     code_example = PNone\<rparr>],
          summary = PStr [], recommendations = PList [], diff_analyzed = []\<rparr>"
  by (simp add: build_review_result_def dict_get_def issue_of_def py_int_def)

lemma extract_first_submit_review:
  assumes "\<forall>b \<in> set pre. \<not> is_submit_review b"
  shows "extract_review_tool_payload rt (pre @ ToolUseBlock ''submit_review'' (Input_dict kvs) # post)
           = Some (PDict kvs)"
  using assms
proof (induction pre)
  case Nil
  then show ?case by simp
next
  case (Cons b pre)
  then show ?case by (cases b) (auto simp: is_submit_review_def)
qed

text \<open>
  Claim C4, as the code has it. When the first review-submission block of the reply
  carries an object that is not empty, the result is built from that object alone,
  whatever text the reply has. The free-text tier is used when no payload is extracted,
  and also when the extracted payload is false as a truth value, as the empty object is.
\<close>

theorem structured_payload_wins:
  "((\<forall>b \<in> set pre. \<not> is_submit_review b) \<and> kvs \<noteq> [] \<longrightarrow>
      fst (review_diffs rt (Inr (pre @ ToolUseBlock ''submit_review'' (Input_dict kvs) # post)) ds)
        = map_sum id (\<lambda>r. r\<lparr>diff_analyzed := build_diff_context ds\<rparr>)
            (build_review_result rt (PDict kvs)))
   \<and> (extract_review_tool_payload rt content = None \<longrightarrow>
      fst (review_diffs rt (Inr content) ds)
        = map_sum id (\<lambda>r. r\<lparr>diff_analyzed := build_diff_context ds\<rparr>)
            (parse_review_response rt (collect_text_blocks rt content) ds))
   \<and> (extract_review_tool_payload rt content = Some payload \<and> \<not> truthy payload \<longrightarrow>
      fst (review_diffs rt (Inr content) ds)
        = map_sum id (\<lambda>r. r\<lparr>diff_analyzed := build_diff_context ds\<rparr>)
            (parse_review_response rt (collect_text_blocks rt content) ds))"
proof (intro conjI impI)
  assume a: "(\<forall>b \<in> set pre. \<not> is_submit_review b) \<and> kvs \<noteq> []"
  then have "extract_review_tool_payload rt (pre @ ToolUseBlock ''submit_review'' (Input_dict kvs) # post)
               = Some (PDict kvs)"
    using extract_first_submit_review by blast
  with a show "fst (review_diffs rt (Inr (pre @ ToolUseBlock ''submit_review'' (Input_dict kvs) # post)) ds)
        = map_sum id (\<lambda>r. r\<lparr>diff_analyzed := build_diff_context ds\<rparr>)
            (build_review_result rt (PDict kvs))"
    by (cases "build_review_result rt (PDict kvs)") (simp_all add: review_diffs_def Let_def)
next
  assume "extract_review_tool_payload rt content = None"
  then show "fst (review_diffs rt (Inr content) ds)
        = map_sum id (\<lambda>r. r\<lparr>diff_analyzed := build_diff_context ds\<rparr>)
            (parse_review_response rt (collect_text_blocks rt content) ds)"
    by (cases "parse_review_response rt (collect_text_blocks rt content) ds")
       (simp_all add: review_diffs_def Let_def)
next
  assume "extract_review_tool_payload rt content = Some payload \<and> \<not> truthy payload"
  then show "fst (review_diffs rt (Inr content) ds)
        = map_sum id (\<lambda>r. r\<lparr>diff_analyzed := build_diff_context ds\<rparr>)
            (parse_review_response rt (collect_text_blocks rt content) ds)"
    by (cases "parse_review_response rt (collect_text_blocks rt content) ds")
       (simp_all add: review_diffs_def Let_def)
qed

text \<open>
  C4 at a reply whose text is not JSON: with a payload that gives a score of 90 after
  the text, the result has score 90; with no tool block, it is the minimal result.
\<close>

theorem structured_payload_wins_witness:
  "fst (review_diffs (python_with [])
          (Inr [TextBlock ''not json'',
                ToolUseBlock ''submit_review'' (Input_dict [(''overall_score'', PInt 90)])]) [])
     = Inr \<lparr>overall_score = PInt 90, issues = [], summary = PStr [], recommendations = PList [],
            diff_analyzed = ''# Code Changes Review\<newline>\<newline>Total files changed: 0\<newline>''\<rparr>
   \<and> fst (review_diffs (python_with []) (Inr [TextBlock ''not json'']) [])
     = Inr \<lparr>overall_score = PInt 50, issues = [], summary = PStr ''not json'',
            recommendations =
              PList [PStr ''Unable to parse structured review. See summary for details.''],
            diff_analyzed = ''# Code Changes Review\<newline>\<newline>Total files changed: 0\<newline>''\<rparr>"
proof -
  let ?kvs = "[(''overall_score'', PInt 90)]"
  have pre: "(\<forall>b \<in> set [TextBlock ''not json'']. \<not> is_submit_review b) \<and> ?kvs \<noteq> []"
    by (simp add: is_submit_review_def)
  have built: "build_review_result (python_with []) (PDict ?kvs)
      = Inr \<lparr>overall_score = PInt 90, issues = [], summary = PStr [], recommendations = PList [],
             diff_analyzed = []\<rparr>"
    by (simp add: build_review_result_def dict_get_def py_int_def)
  have ctx: "build_diff_context [] = ''# Code Changes Review\<newline>\<newline>Total files changed: 0\<newline>''"
    by (simp add: build_diff_context_def)
  have none: "extract_review_tool_payload (python_with []) [TextBlock ''not json''] = None"
    by simp
  have jt: "json_text ''not json'' = ''not json''"
    by (simp add: json_text_def startswith_def)
  have parsed: "parse_review_response (python_with [])
        (collect_text_blocks (python_with []) [TextBlock ''not json'']) []
      = Inr \<lparr>overall_score = PInt 50, issues = [], summary = PStr ''not json'',
            recommendations =
              PList [PStr ''Unable to parse structured review. See summary for details.''],
            diff_analyzed = []\<rparr>"
    by (simp add: collect_text_blocks_def parse_review_response_def jt python_with_def
        fallback_result_def)
  have 1: "fst (review_diffs (python_with [])
          (Inr ([TextBlock ''not json''] @ ToolUseBlock ''submit_review'' (Input_dict ?kvs) # [])) [])
     = Inr \<lparr>overall_score = PInt 90, issues = [], summary = PStr [], recommendations = PList [],
            diff_analyzed = ''# Code Changes Review\<newline>\<newline>Total files changed: 0\<newline>''\<rparr>"
    using structured_payload_wins [of "[TextBlock ''not json'']" ?kvs "python_with []" "[]" "[]"] pre
    by (simp only: built ctx) simp
  have 2: "fst (review_diffs (python_with []) (Inr [TextBlock ''not json'']) [])
     = Inr \<lparr>overall_score = PInt 50, issues = [], summary = PStr ''not json'',
            recommendations =
              PList [PStr ''Unable to parse structured review. See summary for details.''],
            diff_analyzed = ''# Code Changes Review\<newline>\<newline>Total files changed: 0\<newline>''\<rparr>"
    using structured_payload_wins [of "[]" "[]" "python_with []" "[]" "[]" "[TextBlock ''not json'']"] none
    by (simp only: parsed ctx) simp
  from 1 2 show ?thesis by simp
qed

text \<open>
  Claim C4 as stated has the structured payload win in every reply that carries one. The
  code tests the payload for truth, so the empty object loses: with the empty payload
  and the text \<open>not json\<close>, the result comes from the text, where the payload alone gives
  an empty summary and no recommendation.
\<close>

theorem empty_payload_loses:
  "fst (review_diffs (python_with [])
          (Inr [ToolUseBlock ''submit_review'' (Input_dict []), TextBlock ''not json'']) [])
     = Inr \<lparr>overall_score = PInt 50, issues = [], summary = PStr ''not json'',
            recommendations =
              PList [PStr ''Unable to parse structured review. See summary for details.''],
            diff_analyzed = ''# Code Changes Review\<newline>\<newline>Total files changed: 0\<newline>''\<rparr>
   \<and> build_review_result (python_with []) (PDict [])
     = Inr \<lparr>overall_score = PInt 50, issues = [], summary = PStr [], recommendations = PList [],
            diff_analyzed = []\<rparr>"
proof -
  have jt: "json_text ''not json'' = ''not json''"
    by (simp add: json_text_def startswith_def)
  have ctx: "build_diff_context [] = ''# Code Changes Review\<newline>\<newline>Total files changed: 0\<newline>''"
    by (simp add: build_diff_context_def)
  show ?thesis
    by (simp add: review_diffs_def collect_text_blocks_def parse_review_response_def jt ctx
        python_with_def fallback_result_def build_review_result_def dict_get_def py_int_def)
qed

section \<open>Properties of the test placement\<close>

lemma startswith_iff: "startswith s p \<longleftrightarrow> (\<exists>b. s = p @ b)"
proof
  assume "startswith s p"
  then have "s = p @ drop (length p) s"
    by (metis append_take_drop_id startswith_def)
  then show "\<exists>b. s = p @ b" ..
next
  assume "\<exists>b. s = p @ b"
  then show "startswith s p" by (auto simp: startswith_def)
qed

text \<open>\<open>contains\<close> is the verbatim occurrence of one text inside another.\<close>

lemma contains_iff: "contains s sub \<longleftrightarrow> (\<exists>a b. s = a @ sub @ b)"
proof (induction s)
  case Nil
  then show ?case by auto
next
  case (Cons c cs)
  show ?case
  proof
    assume "contains (c # cs) sub"
    then consider "startswith (c # cs) sub" | "contains cs sub" by auto
    then show "\<exists>a b. c # cs = a @ sub @ b"
    proof cases
      case 1
      then obtain b where "c # cs = sub @ b" using startswith_iff by blast
      then have "c # cs = [] @ sub @ b" by simp
      then show ?thesis by blast
    next
      case 2
      then obtain a b where "cs = a @ sub @ b" using Cons.IH by blast
      then have "c # cs = (c # a) @ sub @ b" by simp
      then show ?thesis by blast
    qed
  next
    assume "\<exists>a b. c # cs = a @ sub @ b"
    then obtain a b where ab: "c # cs = a @ sub @ b" by blast
    show "contains (c # cs) sub"
    proof (cases a)
      case Nil
      with ab have "startswith (c # cs) sub" using startswith_iff by auto
      then show ?thesis by simp
    next
      case (Cons x a')
      with ab have "cs = a' @ sub @ b" by simp
      then have "contains cs sub" using Cons.IH by blast
      then show ?thesis by simp
    qed
  qed
qed

text \<open>
  Claim C8. With the target file present and no overwrite, the test is appended exactly
  when the text \<open>def\<close> followed by the test name does not occur in the file, and otherwise
  the call returns \<open>False\<close> and leaves every file as it was. With no file at the target
  path, the new file holds the imports of the framework, an empty line, the test body and
  a final line feed.
\<close>

theorem write_test_to_file_contract:
  "(files (test_file_path test) = Some existing \<and> \<not> overwrite
      \<and> contains existing (''def '' @ test_name test)
      \<longrightarrow> write_test_to_file files test overwrite = (False, files))
   \<and> (files (test_file_path test) = Some existing \<and> \<not> overwrite
      \<and> \<not> contains existing (''def '' @ test_name test)
      \<longrightarrow> write_test_to_file files test overwrite
            = (True, files(test_file_path test \<mapsto>
                 existing @ ''\<newline>\<newline>'' @ test_code test @ ''\<newline>'')))
   \<and> (files (test_file_path test) = None
      \<longrightarrow> write_test_to_file files test overwrite
            = (True, files(test_file_path test \<mapsto>
                 get_test_imports (framework test) @ ''\<newline>\<newline>'' @ test_code test @ ''\<newline>'')))
   \<and> get_test_imports ''pytest'' = ''import pytest\<newline>from unittest.mock import Mock, patch''
   \<and> get_test_imports ''unittest'' = ''import unittest\<newline>from unittest.mock import Mock, patch''"
  by (simp add: write_test_to_file_def get_test_imports_def Let_def)

text \<open>
  The scenario of C8: writing \<open>test_foo\<close> to a fresh path, writing it again, and writing it
  to a file that does not mention it.
\<close>

theorem write_test_to_file_contract_witness:
  "write_test_to_file Map.empty
     \<lparr>test_name = ''test_foo'', test_code = ''def test_foo(): pass'', tested_function = ''foo'',
      test_file_path = ''tests/test_m.py'', framework = ''pytest''\<rparr> False
   = (True, [''tests/test_m.py'' \<mapsto>
        ''import pytest\<newline>from unittest.mock import Mock, patch\<newline>\<newline>def test_foo(): pass\<newline>''])
   \<and> write_test_to_file [''tests/test_m.py'' \<mapsto>
        ''import pytest\<newline>from unittest.mock import Mock, patch\<newline>\<newline>def test_foo(): pass\<newline>'']
     \<lparr>test_name = ''test_foo'', test_code = ''def test_foo(): pass'', tested_function = ''foo'',
      test_file_path = ''tests/test_m.py'', framework = ''pytest''\<rparr> False
   = (False, [''tests/test_m.py'' \<mapsto>
        ''import pytest\<newline>from unittest.mock import Mock, patch\<newline>\<newline>def test_foo(): pass\<newline>''])
   \<and> write_test_to_file [''tests/test_m.py'' \<mapsto> ''import os'']
     \<lparr>test_name = ''test_foo'', test_code = ''def test_foo(): pass'', tested_function = ''foo'',
      test_file_path = ''tests/test_m.py'', framework = ''pytest''\<rparr> False
   = (True, [''tests/test_m.py'' \<mapsto> ''import os\<newline>\<newline>def test_foo(): pass\<newline>''])"
proof -
  let ?t = "\<lparr>test_name = ''test_foo'', test_code = ''def test_foo(): pass'', tested_function = ''foo'',
      test_file_path = ''tests/test_m.py'', framework = ''pytest''\<rparr>"
  let ?c = "''import pytest\<newline>from unittest.mock import Mock, patch\<newline>\<newline>def test_foo(): pass\<newline>''"
  have present: "contains ?c (''def '' @ test_name ?t)"
    by (simp add: startswith_def)
  have absent: "\<not> contains ''import os'' (''def '' @ test_name ?t)"
    by (simp add: startswith_def)
  have 1: "write_test_to_file Map.empty ?t False
      = (True, [''tests/test_m.py'' \<mapsto> ?c])"
    using write_test_to_file_contract [of Map.empty ?t "[]" False] by simp
  have 2: "write_test_to_file [''tests/test_m.py'' \<mapsto> ?c] ?t False = (False, [''tests/test_m.py'' \<mapsto> ?c])"
    using write_test_to_file_contract [of "[''tests/test_m.py'' \<mapsto> ?c]" ?t ?c False] present
    by (simp del: contains.simps)
  have 3: "write_test_to_file [''tests/test_m.py'' \<mapsto> ''import os''] ?t False
      = (True, [''tests/test_m.py'' \<mapsto> ''import os\<newline>\<newline>def test_foo(): pass\<newline>''])"
    using write_test_to_file_contract [of "[''tests/test_m.py'' \<mapsto> ''import os'']" ?t "''import os''" False] absent
    by (simp del: contains.simps)
  from 1 2 3 show ?thesis by blast
qed

section \<open>Properties of the structure analyzer\<close>

lemma complexity_step_add: "complexity_step c n = c + complexity_step 0 n"
  by (cases n) simp_all

lemma points_children:
  "points counted_decision n
     = complexity_step 0 n
       + sum_list (map (\<lambda>p. points counted_decision (snd p)) (tagged_children n))"
  by (cases n) (simp_all add: counted_decision_def comp_def)

text \<open>The loop over the breadth-first walk adds up the decision points of the queued trees.\<close>

lemma foldl_complexity_walk:
  "foldl complexity_step c (map snd (walk_queue q))
     = c + sum_list (map (\<lambda>p. points counted_decision (snd p)) q)"
proof (induction q arbitrary: c rule: walk_queue.induct)
  case 1
  then show ?case by simp
next
  case (2 p todo)
  have "foldl complexity_step c (map snd (walk_queue (p # todo)))
          = foldl complexity_step (complexity_step c (snd p))
              (map snd (walk_queue (todo @ tagged_children (snd p))))"
    by simp
  also have "\<dots> = complexity_step c (snd p)
          + sum_list (map (\<lambda>p. points counted_decision (snd p)) (todo @ tagged_children (snd p)))"
    by (rule "2.IH")
  also have "\<dots> = c + (complexity_step 0 (snd p)
          + sum_list (map (\<lambda>p. points counted_decision (snd p)) (tagged_children (snd p))))
          + sum_list (map (\<lambda>p. points counted_decision (snd p)) todo)"
    using complexity_step_add [of c "snd p"] by simp
  also have "complexity_step 0 (snd p)
          + sum_list (map (\<lambda>p. points counted_decision (snd p)) (tagged_children (snd p)))
          = points counted_decision (snd p)"
    using points_children [of "snd p"] by simp
  finally show ?case by simp
qed

lemma parse_complexity_points: "parse_complexity node = 1 + points counted_decision node"
  by (simp add: parse_complexity_def walk_def walk_tagged_def foldl_complexity_walk
      del: walk_queue.simps)

text \<open>
  Every record of \<open>_extract_functions\<close> and every method record of \<open>_extract_classes\<close> is
  built by \<open>_parse_function\<close> from a node of the tree.
\<close>

lemma extract_functions_parsed:
  assumes "f \<in> set (extract_functions tree)"
  shows "\<exists>node \<in> set (walk tree). parse_function node = Some f"
proof -
  from assms obtain p where p: "p \<in> set (walk_tagged tree)"
      "(if fst p then None else parse_function (snd p)) = Some f"
    by (auto simp: extract_functions_def List.map_filter_def)
  then have "snd p \<in> set (walk tree)" "parse_function (snd p) = Some f"
    by (auto simp: walk_def split: if_splits)
  then show ?thesis by blast
qed

lemma extract_classes_methods_parsed:
  assumes "c \<in> set (extract_classes tree)" and "m \<in> set (methods c)"
  shows "\<exists>h pre body post f. ClassDef h pre body post \<in> set (walk tree)
           \<and> (\<exists>node \<in> set body. parse_function node = Some f) \<and> m = f\<lparr>is_method := True\<rparr>"
proof -
  from assms(1) obtain n where n: "n \<in> set (walk tree)"
      "(case n of ClassDef h pre body post \<Rightarrow> Some (parse_class h body) | _ \<Rightarrow> None) = Some c"
    by (auto simp: extract_classes_def List.map_filter_def)
  from n(2) obtain h pre body post where cd: "n = ClassDef h pre body post" "c = parse_class h body"
    by (cases n) auto
  with assms(2) obtain node f where "node \<in> set body" "parse_function node = Some f"
      "m = f\<lparr>is_method := True\<rparr>"
    by (auto simp: parse_class_def List.map_filter_def)
  with n(1) cd(1) show ?thesis by blast
qed

text \<open>
  Claim C1, as the code has it. The complexity that \<open>_parse_function\<close> computes for a
  function definition is 1, plus 1 for every \<open>if\<close> statement, \<open>while\<close> loop, \<open>for\<close> loop and
  exception handler in its subtree, plus the number of operands less one for every
  boolean operation there; nodes of other classes add nothing. With no such node the
  complexity is 1.
\<close>

theorem parse_function_complexity:
  assumes "parse_function node = Some f"
  shows "complexity f = 1 + points counted_decision node
       \<and> (points counted_decision node = 0 \<longrightarrow> complexity f = 1)"
proof -
  from assms have "complexity f = parse_complexity node"
    by (cases node) (auto simp: function_record_def)
  then show ?thesis by (simp add: parse_complexity_points)
qed

text \<open>C1 at the function \<open>f\<close> with its single branch: the complexity is 2.\<close>

theorem parse_function_complexity_witness:
  "\<exists>f. parse_function one_branch = Some f \<and> name f = ''f'' \<and> complexity f = 2"
proof -
  obtain f where f: "parse_function one_branch = Some f" "name f = ''f''"
    by (simp add: one_branch_def function_record_def)
  have "points counted_decision one_branch = 1"
    by (simp add: one_branch_def counted_decision_def)
  with parse_function_complexity [OF f(1)] have "complexity f = 2" by simp
  with f show ?thesis by blast
qed

text \<open>
  Claim C1 as stated adds one for each conditional and each loop. The code adds nothing
  for an \<open>async for\<close> loop or for a conditional expression: the function \<open>g\<close> has one of
  each and complexity 1.
\<close>

theorem async_loop_not_counted:
  "parse_complexity async_loop = 1 \<and> 1 + points spec_decision async_loop = 3"
  by (simp add: parse_complexity_points async_loop_def counted_decision_def spec_decision_def)

text \<open>
  Claim C2. A returned analysis with a parse error has no functions, classes, imports or
  global variables and no metrics; a file that cannot be read and a source with a syntax
  error both give such an analysis, with the one message.
\<close>

theorem analyze_file_all_or_nothing:
  "(analyze_file env path = Inr a \<and> parse_errors a \<noteq> [] \<longrightarrow>
      analysis_functions a = [] \<and> analysis_classes a = [] \<and> analysis_imports a = []
      \<and> global_variables a = [] \<and> metrics a = None)
   \<and> (read_text env path = Inl e \<longrightarrow>
      (\<exists>a. analyze_file env path = Inr a \<and> parse_errors a = [''Failed to read file: '' @ e]))
   \<and> (read_text env path = Inr source \<and> ast_parse env source path = Syntax_error e \<longrightarrow>
      (\<exists>a. analyze_file env path = Inr a \<and> parse_errors a = [''Syntax error: '' @ e]))"
  by (auto simp: analyze_file_def Let_def split: sum.splits parse_outcome.splits)

text \<open>
  C2 at a file that does not exist, and at a file whose source is rejected by the parser.
\<close>

theorem analyze_file_all_or_nothing_witness:
  "analyze_file two_files_env ''tests/test_c.py''
     = Inr \<lparr>analysis_file_path = ''tests/test_c.py'', analysis_functions = [],
            analysis_classes = [], analysis_imports = [], global_variables = [], metrics = None,
            parse_errors = [''Failed to read file: No such file or directory'']\<rparr>
   \<and> (\<exists>a. analyze_file (two_files_env\<lparr>read_text := (\<lambda>path. Inr ''def f(:'')\<rparr>) ''m.py'' = Inr a
         \<and> parse_errors a = [''Syntax error: invalid syntax'']
         \<and> analysis_functions a = [] \<and> analysis_classes a = [] \<and> analysis_imports a = []
         \<and> global_variables a = [] \<and> metrics a = None)"
proof -
  let ?env = "two_files_env\<lparr>read_text := (\<lambda>path. Inr ''def f(:'')\<rparr>"
  have r1: "read_text two_files_env ''tests/test_c.py'' = Inl ''No such file or directory''"
    by (simp add: two_files_env_def)
  from analyze_file_all_or_nothing [of two_files_env "''tests/test_c.py''"] r1
  obtain a where a: "analyze_file two_files_env ''tests/test_c.py'' = Inr a"
      "parse_errors a = [''Failed to read file: No such file or directory'']"
    by auto
  from analyze_file_all_or_nothing [of two_files_env "''tests/test_c.py''" a] a
  have e: "analysis_functions a = []" "analysis_classes a = []" "analysis_imports a = []"
      "global_variables a = []" "metrics a = None"
    by simp_all
  have p: "analysis_file_path a = ''tests/test_c.py''"
    using a(1) r1 by (auto simp: analyze_file_def)
  have first: "analyze_file two_files_env ''tests/test_c.py''
     = Inr \<lparr>analysis_file_path = ''tests/test_c.py'', analysis_functions = [],
            analysis_classes = [], analysis_imports = [], global_variables = [], metrics = None,
            parse_errors = [''Failed to read file: No such file or directory'']\<rparr>"
    using a e p by simp
  have r2: "read_text ?env ''m.py'' = Inr ''def f(:''"
    by simp
  have s2: "ast_parse ?env ''def f(:'' ''m.py'' = Syntax_error ''invalid syntax''"
    by (simp add: two_files_env_def test_a_source_def test_b_source_def)
  from analyze_file_all_or_nothing [of ?env "''m.py''" _ "''invalid syntax''" "''def f(:''"] r2 s2
  obtain b where b: "analyze_file ?env ''m.py'' = Inr b"
      "parse_errors b = [''Syntax error: invalid syntax'']"
    by auto
  from analyze_file_all_or_nothing [of ?env "''m.py''" b] b
  have "analysis_functions b = [] \<and> analysis_classes b = [] \<and> analysis_imports b = []
      \<and> global_variables b = [] \<and> metrics b = None"
    by simp
  with b have "analyze_file ?env ''m.py'' = Inr b
         \<and> parse_errors b = [''Syntax error: invalid syntax'']
         \<and> analysis_functions b = [] \<and> analysis_classes b = [] \<and> analysis_imports b = []
         \<and> global_variables b = [] \<and> metrics b = None"
    by simp
  then have second: "\<exists>a. analyze_file ?env ''m.py'' = Inr a
         \<and> parse_errors a = [''Syntax error: invalid syntax'']
         \<and> analysis_functions a = [] \<and> analysis_classes a = [] \<and> analysis_imports a = []
         \<and> global_variables a = [] \<and> metrics a = None"
    by (rule exI)
  from first second show ?thesis by (rule conjI)
qed

section \<open>Properties of the test pattern scan\<close>

lemma discover_test_patterns_foldl:
  "discover_test_patterns env fw test_dir
     = foldl (discover_step env)
         \<lparr>patterns_framework = fw, patterns_imports = [], patterns_fixtures = [],
          patterns_test_structure = [], patterns_examples = []\<rparr>
         (analyzed_files env test_dir)"
  by (simp add: discover_test_patterns_def analyzed_files_def Let_def)

lemma discover_step_examples:
  "length (patterns_examples (discover_step env pat p)) \<le> length (patterns_examples pat) + 2"
  by (simp add: discover_step_def find_test_functions_def Let_def split: sum.splits)

lemma foldl_discover_examples:
  "length (patterns_examples (foldl (discover_step env) pat ps))
     \<le> length (patterns_examples pat) + 2 * length ps"
proof (induction ps arbitrary: pat)
  case Nil
  then show ?case by simp
next
  case (Cons p ps)
  have "length (patterns_examples (foldl (discover_step env) (discover_step env pat p) ps))
          \<le> length (patterns_examples (discover_step env pat p)) + 2 * length ps"
    by (rule Cons.IH)
  with discover_step_examples [of env pat p] show ?case by simp
qed

lemma discover_step_framework:
  "patterns_framework (discover_step env pat p)
     = foldl detect_framework (patterns_framework pat)
         (case analyze_file env p of Inl e \<Rightarrow> [] | Inr a \<Rightarrow> analysis_imports a)"
  by (simp add: discover_step_def find_test_functions_def Let_def split: sum.splits)

lemma foldl_discover_framework:
  "patterns_framework (foldl (discover_step env) pat ps)
     = foldl detect_framework (patterns_framework pat)
         (concat (map (\<lambda>p. case analyze_file env p of Inl e \<Rightarrow> [] | Inr a \<Rightarrow> analysis_imports a) ps))"
proof (induction ps arbitrary: pat)
  case Nil
  then show ?case by simp
next
  case (Cons p ps)
  show ?case by (simp add: Cons.IH discover_step_framework)
qed

text \<open>The detection loop keeps the module of the last import of a known framework.\<close>

lemma foldl_detect_framework_last:
  "foldl detect_framework fw imps
     = (if filter known_framework imps = [] then fw
        else module (last (filter known_framework imps)))"
proof (induction imps rule: rev_induct)
  case Nil
  then show ?case by simp
next
  case (snoc imp imps)
  have "detect_framework x imp = (if known_framework imp then module imp else x)" for x
    by (simp add: detect_framework_def known_framework_def)
  with snoc show ?case by simp
qed

lemma discover_step_cong:
  "analyze_file env' p = analyze_file env p \<Longrightarrow> discover_step env' pat p = discover_step env pat p"
  by (cases "analyze_file env p") (simp_all add: discover_step_def find_test_functions_def)

lemma foldl_discover_cong:
  "\<forall>p \<in> set ps. analyze_file env' p = analyze_file env p
     \<Longrightarrow> foldl (discover_step env') pat ps = foldl (discover_step env) pat ps"
proof (induction ps arbitrary: pat)
  case Nil
  then show ?case by simp
next
  case (Cons p ps)
  from Cons.prems have "discover_step env' pat p = discover_step env pat p"
    by (intro discover_step_cong) simp
  moreover from Cons.prems
  have "foldl (discover_step env') (discover_step env pat p) ps
          = foldl (discover_step env) (discover_step env pat p) ps"
    by (intro Cons.IH) simp
  ultimately show ?case by simp
qed

text \<open>The analyses of the example files, as far as the scan reads them.\<close>

lemma analyze_file_glob: "analyze_file (env\<lparr>glob := g\<rparr>) p = analyze_file env p"
  by (cases "read_text env p")
     (simp_all add: analyze_file_def calculate_metrics_def Let_def split: parse_outcome.splits)

lemma sources_differ: "test_b_source \<noteq> test_a_source"
  by (simp add: test_a_source_def test_b_source_def)

lemma walk_test_a:
  "walk_tagged test_a_tree
     = [(False, test_a_tree), (False, Import 1 [(''pytest'', None)]),
        (False, test_def ''test_one'' 2), (False, test_def ''test_two'' 3),
        (False, Node Other []), (False, Node Other []), (False, Node Other []),
        (False, Node Other []), (False, Node Other [])]"
  by (simp add: walk_tagged_def test_a_tree_def test_def_def)

lemma walk_test_b:
  "walk_tagged test_b_tree
     = [(False, test_b_tree), (False, Import 1 [(''unittest'', None)]),
        (False, test_def ''test_three'' 2), (False, test_def ''test_four'' 3),
        (False, Node Other []), (False, Node Other []), (False, Node Other []),
        (False, Node Other []), (False, Node Other [])]"
  by (simp add: walk_tagged_def test_b_tree_def test_def_def)

lemma imports_test_a:
  "extract_imports test_a_tree
     = [\<lparr>module = ''pytest'', names = [''pytest''], import_lineno = 1, is_from_import = False\<rparr>]"
  by (simp add: extract_imports_def walk_def walk_test_a) (simp add: test_a_tree_def test_def_def)

lemma imports_test_b:
  "extract_imports test_b_tree
     = [\<lparr>module = ''unittest'', names = [''unittest''], import_lineno = 1, is_from_import = False\<rparr>]"
  by (simp add: extract_imports_def walk_def walk_test_b) (simp add: test_b_tree_def test_def_def)

lemma functions_test_a:
  "map name (extract_functions test_a_tree) = [''test_one'', ''test_two'']"
  by (simp add: extract_functions_def walk_test_a List.map_filter_def)
     (simp add: test_a_tree_def test_def_def function_record_def)

lemma functions_test_b:
  "map name (extract_functions test_b_tree) = [''test_three'', ''test_four'']"
  by (simp add: extract_functions_def walk_test_b List.map_filter_def)
     (simp add: test_b_tree_def test_def_def function_record_def)

lemma analyze_two_files:
  "\<exists>a. analyze_file two_files_env ''tests/test_a.py'' = Inr a
       \<and> map name (analysis_functions a) = [''test_one'', ''test_two'']"
  "\<exists>a. analyze_file two_files_env ''tests/test_b.py'' = Inr a
       \<and> map name (analysis_functions a) = [''test_three'', ''test_four'']"
  by (simp_all add: analyze_file_def two_files_env_def Let_def sources_differ
      functions_test_a functions_test_b)

lemma imports_four_files:
  "(case analyze_file four_files_env ''tests/test_a.py'' of Inl e \<Rightarrow> [] | Inr a \<Rightarrow> analysis_imports a)
     = extract_imports test_a_tree"
  "(case analyze_file four_files_env ''tests/test_b.py'' of Inl e \<Rightarrow> [] | Inr a \<Rightarrow> analysis_imports a)
     = extract_imports test_b_tree"
  "(case analyze_file four_files_env ''tests/test_c.py'' of Inl e \<Rightarrow> [] | Inr a \<Rightarrow> analysis_imports a)
     = extract_imports test_a_tree"
  by (simp_all add: analyze_file_def four_files_env_def two_files_env_def Let_def sources_differ)

lemma discover_step_names:
  assumes "analyze_file env p = Inr a"
  shows "map name (patterns_examples (discover_step env pat p))
           = map name (patterns_examples pat)
             @ take 2 (filter (\<lambda>n. startswith n ''test_'') (map name (analysis_functions a)))"
  using assms
  by (simp add: discover_step_def find_test_functions_def Let_def take_map filter_map comp_def)

text \<open>
  Claim C9, as the code has it. A scan analyzes at most three files, and no file after
  the third has any part in its result; it keeps at most two examples for each file that
  it analyzes, so at most six; the framework is the module of the last import of a known
  framework among the imports read, and the configured one when there is none; a missing
  test root gives the empty pattern set with the configured framework.
\<close>

theorem discover_test_patterns_scan:
  "length (analyzed_files env test_dir) \<le> 3
   \<and> (analyzed_files env' test_dir = analyzed_files env test_dir
        \<and> (\<forall>p \<in> set (analyzed_files env test_dir). analyze_file env' p = analyze_file env p)
      \<longrightarrow> discover_test_patterns env' fw test_dir = discover_test_patterns env fw test_dir)
   \<and> length (patterns_examples (discover_test_patterns env fw test_dir))
        \<le> 2 * length (analyzed_files env test_dir)
   \<and> length (patterns_examples (discover_test_patterns env fw test_dir)) \<le> 6
   \<and> patterns_framework (discover_test_patterns env fw test_dir)
        = (if filter known_framework (scanned_imports env test_dir) = [] then fw
           else module (last (filter known_framework (scanned_imports env test_dir))))
   \<and> (\<not> path_exists env test_dir \<longrightarrow>
        discover_test_patterns env fw test_dir
          = \<lparr>patterns_framework = fw, patterns_imports = [], patterns_fixtures = [],
             patterns_test_structure = [], patterns_examples = []\<rparr>)"
proof -
  let ?init = "\<lparr>patterns_framework = fw, patterns_imports = [], patterns_fixtures = [],
                patterns_test_structure = [], patterns_examples = []\<rparr>"
  have three: "length (analyzed_files env test_dir) \<le> 3"
    by (simp add: analyzed_files_def)
  have same: "analyzed_files env' test_dir = analyzed_files env test_dir
        \<and> (\<forall>p \<in> set (analyzed_files env test_dir). analyze_file env' p = analyze_file env p)
      \<longrightarrow> discover_test_patterns env' fw test_dir = discover_test_patterns env fw test_dir"
    using foldl_discover_cong [of "analyzed_files env test_dir" env' env ?init]
    by (simp add: discover_test_patterns_foldl)
  have two: "length (patterns_examples (discover_test_patterns env fw test_dir))
               \<le> 2 * length (analyzed_files env test_dir)"
    using foldl_discover_examples [of env ?init "analyzed_files env test_dir"]
    by (simp add: discover_test_patterns_foldl)
  from two three have six: "length (patterns_examples (discover_test_patterns env fw test_dir)) \<le> 6"
    by simp
  have fw: "patterns_framework (discover_test_patterns env fw test_dir)
        = (if filter known_framework (scanned_imports env test_dir) = [] then fw
           else module (last (filter known_framework (scanned_imports env test_dir))))"
    using foldl_detect_framework_last [of fw "scanned_imports env test_dir"]
    by (simp add: discover_test_patterns_foldl foldl_discover_framework scanned_imports_def)
  have missing: "\<not> path_exists env test_dir \<longrightarrow> discover_test_patterns env fw test_dir = ?init"
    by (simp add: discover_test_patterns_def)
  show ?thesis by (intro conjI) (rule three same two six fw missing)+
qed

text \<open>
  C9 at the root with four files. The scan analyzes the first three, and the same scan of
  a root that holds only these three gives the same patterns; it keeps six examples; the
  framework is \<open>pytest\<close>, from the third file, over the configured \<open>unittest\<close> and the
  \<open>unittest\<close> of the second file, and the fourth file, which imports \<open>unittest\<close>, has no
  part in it. A root that does not exist gives the empty pattern set.
\<close>

theorem discover_test_patterns_scan_witness:
  "analyzed_files four_files_env ''tests''
     = [''tests/test_a.py'', ''tests/test_b.py'', ''tests/test_c.py'']
   \<and> discover_test_patterns
         (four_files_env\<lparr>glob := (\<lambda>dir pattern. if pattern = ''**/test_*.py''
            then [''tests/test_a.py'', ''tests/test_b.py'', ''tests/test_c.py''] else [])\<rparr>)
         ''unittest'' ''tests''
       = discover_test_patterns four_files_env ''unittest'' ''tests''
   \<and> length (patterns_examples (discover_test_patterns four_files_env ''unittest'' ''tests'')) \<le> 6
   \<and> patterns_framework (discover_test_patterns four_files_env ''unittest'' ''tests'') = ''pytest''
   \<and> discover_test_patterns four_files_env ''unittest'' ''nowhere''
       = \<lparr>patterns_framework = ''unittest'', patterns_imports = [], patterns_fixtures = [],
          patterns_test_structure = [], patterns_examples = []\<rparr>"
proof -
  let ?three = "four_files_env\<lparr>glob := (\<lambda>dir pattern. if pattern = ''**/test_*.py''
            then [''tests/test_a.py'', ''tests/test_b.py'', ''tests/test_c.py''] else [])\<rparr>"
  have files: "analyzed_files four_files_env ''tests''
      = [''tests/test_a.py'', ''tests/test_b.py'', ''tests/test_c.py'']"
    by (simp add: analyzed_files_def test_files_def four_files_env_def two_files_env_def)
  have files': "analyzed_files ?three ''tests''
      = [''tests/test_a.py'', ''tests/test_b.py'', ''tests/test_c.py'']"
    by (simp add: analyzed_files_def test_files_def four_files_env_def two_files_env_def)
  have agree: "\<forall>p \<in> set (analyzed_files four_files_env ''tests'').
      analyze_file ?three p = analyze_file four_files_env p"
    by (simp add: analyze_file_glob)
  have known: "filter known_framework (scanned_imports four_files_env ''tests'')
      = [\<lparr>module = ''pytest'', names = [''pytest''], import_lineno = 1, is_from_import = False\<rparr>,
         \<lparr>module = ''unittest'', names = [''unittest''], import_lineno = 1, is_from_import = False\<rparr>,
         \<lparr>module = ''pytest'', names = [''pytest''], import_lineno = 1, is_from_import = False\<rparr>]"
    by (simp add: scanned_imports_def files imports_four_files imports_test_a imports_test_b
        known_framework_def)
  have nowhere: "\<not> path_exists four_files_env ''nowhere''"
    by (simp add: four_files_env_def two_files_env_def)
  note scan = discover_test_patterns_scan [where env = four_files_env and env' = ?three
      and fw = "''unittest''" and test_dir = "''tests''"]
  from scan files' files agree
  have same: "discover_test_patterns ?three ''unittest'' ''tests''
      = discover_test_patterns four_files_env ''unittest'' ''tests''"
    by simp
  from scan
  have six: "length (patterns_examples (discover_test_patterns four_files_env ''unittest'' ''tests'')) \<le> 6"
    by simp
  from scan known
  have fw: "patterns_framework (discover_test_patterns four_files_env ''unittest'' ''tests'') = ''pytest''"
    by simp
  from discover_test_patterns_scan [where env = four_files_env and fw = "''unittest''"
      and test_dir = "''nowhere''"] nowhere
  have missing: "discover_test_patterns four_files_env ''unittest'' ''nowhere''
       = \<lparr>patterns_framework = ''unittest'', patterns_imports = [], patterns_fixtures = [],
          patterns_test_structure = [], patterns_examples = []\<rparr>"
    by simp
  show ?thesis by (intro conjI) (rule files same six fw missing)+
qed

text \<open>
  Claim C9 as stated allows two examples overall. The scan of the root with two files
  keeps two examples from each file, four in all.
\<close>

theorem two_files_four_examples:
  "map name (patterns_examples (discover_test_patterns two_files_env ''pytest'' ''tests''))
     = [''test_one'', ''test_two'', ''test_three'', ''test_four'']"
proof -
  obtain a where a: "analyze_file two_files_env ''tests/test_a.py'' = Inr a"
      "map name (analysis_functions a) = [''test_one'', ''test_two'']"
    using analyze_two_files(1) by (elim exE conjE) (rule that)
  obtain b where b: "analyze_file two_files_env ''tests/test_b.py'' = Inr b"
      "map name (analysis_functions b) = [''test_three'', ''test_four'']"
    using analyze_two_files(2) by (elim exE conjE) (rule that)
  have files: "analyzed_files two_files_env ''tests'' = [''tests/test_a.py'', ''tests/test_b.py'']"
    by (simp add: analyzed_files_def test_files_def two_files_env_def)
  show ?thesis
    by (simp add: discover_test_patterns_foldl files discover_step_names [OF a(1)]
        discover_step_names [OF b(1)] a(2) b(2) startswith_def)
qed

end
